theory Spec2Isabelle
  imports
    Complex_Main
    "HOL-Library.Word"
    "HOL-Library.Multiset"
    "HOL-Library.Sublist"
    "HOL-Library.Char_ord"
    "HOL-Library.List_Lexorder"
    "HOL-Library.Code_Target_Nat"
begin

section \<open>Byte strings and the string helpers of Go's standard library\<close>

text \<open>
  A Go \<^verbatim>\<open>string\<close> is a sequence of bytes; it is modelled by \<open>string\<close>, a list of
  8-bit characters. The helpers below are the functions of \<^verbatim>\<open>strings\<close>,
  \<^verbatim>\<open>strconv\<close> and \<^verbatim>\<open>fmt\<close> that the repository calls, restricted to what the calls
  use. \<^verbatim>\<open>strings.ToLower\<close> and \<^verbatim>\<open>strings.TrimSpace\<close> are modelled on ASCII: letters
  and white space outside ASCII are left as they are.
\<close>

definition isDigit :: "char \<Rightarrow> bool" where
  "isDigit c \<longleftrightarrow> 48 \<le> (of_char c :: nat) \<and> (of_char c :: nat) \<le> 57"

definition digitVal :: "char \<Rightarrow> nat" where
  "digitVal c = of_char c - 48"

definition digitChar :: "nat \<Rightarrow> char" where
  "digitChar n = char_of (48 + n)"

definition toLowerChar :: "char \<Rightarrow> char" where
  "toLowerChar c =
     (if 65 \<le> (of_char c :: nat) \<and> (of_char c :: nat) \<le> 90 then char_of (of_char c + (32::nat)) else c)"

definition ToLower :: "string \<Rightarrow> string" where
  "ToLower s = map toLowerChar s"

definition isSpace :: "char \<Rightarrow> bool" where
  "isSpace c \<longleftrightarrow> (of_char c :: nat) = 32 \<or> (9 \<le> (of_char c :: nat) \<and> (of_char c :: nat) \<le> 13)"

definition TrimSpace :: "string \<Rightarrow> string" where
  "TrimSpace s = rev (dropWhile isSpace (rev (dropWhile isSpace s)))"

fun Contains :: "string \<Rightarrow> string \<Rightarrow> bool" where
  "Contains [] substr = (substr = [])"
| "Contains (c # cs) substr = (prefix substr (c # cs) \<or> Contains cs substr)"

text \<open>\<^verbatim>\<open>strings.ReplaceAll(h, old, new)\<close> for one-byte \<^verbatim>\<open>old\<close> and \<^verbatim>\<open>new\<close>.\<close>

definition ReplaceAll :: "string \<Rightarrow> char \<Rightarrow> char \<Rightarrow> string" where
  "ReplaceAll s old new = map (\<lambda>c. if c = old then new else c) s"

fun Join :: "string list \<Rightarrow> string \<Rightarrow> string" where
  "Join [] sep = []"
| "Join [x] sep = x"
| "Join (x # y # ys) sep = x @ sep @ Join (y # ys) sep"

text \<open>
  \<^verbatim>\<open>strings.Split(s, sep)\<close> for a one-byte separator: the pieces between the separators,
  one more than there are separators (so one empty piece for the empty string).
\<close>

fun Split :: "string \<Rightarrow> char \<Rightarrow> string list" where
  "Split [] sep = [[]]"
| "Split (c # cs) sep =
     (if c = sep then [] # Split cs sep
      else (case Split cs sep of [] \<Rightarrow> [[c]] | p # ps \<Rightarrow> (c # p) # ps))"

subsection \<open>Decimal integers\<close>

fun digits :: "nat \<Rightarrow> string" where
  "digits n = (if n < 10 then [digitChar n] else digits (n div 10) @ [digitChar (n mod 10)])"

declare digits.simps [simp del]

definition digitsVal :: "string \<Rightarrow> nat" where
  "digitsVal s = foldl (\<lambda>acc c. acc * 10 + digitVal c) 0 s"

text \<open>\<^verbatim>\<open>fmt.Sprintf("%d", v)\<close> for a signed integer.\<close>

definition formatInt :: "int \<Rightarrow> string" where
  "formatInt v = (if v < 0 then CHR ''-'' # digits (nat (- v)) else digits (nat v))"

text \<open>
  \<^verbatim>\<open>strconv.ParseInt(s, 10, 64)\<close>: an optional sign, then one or more decimal digits and
  nothing else; a value outside the range of \<^verbatim>\<open>int64\<close> is an error. The result is the
  \<^verbatim>\<open>int64\<close>, a 64-bit word read as signed.
\<close>

type_synonym int64 = "64 word"

definition ParseInt :: "string \<Rightarrow> int64 option" where
  "ParseInt s =
     (if s = [] then None
      else
        let neg = (hd s = CHR ''-'');
            body = (if hd s = CHR ''+'' \<or> hd s = CHR ''-'' then tl s else s)
        in if body = [] \<or> \<not> list_all isDigit body then None
           else
             let n = digitsVal body
             in if neg then (if n \<le> 2 ^ 63 then Some (word_of_int (- int n)) else None)
                else (if n < 2 ^ 63 then Some (word_of_int (int n)) else None))"

text \<open>
  \<^verbatim>\<open>strconv.Atoi\<close> on a 64-bit platform is \<^verbatim>\<open>ParseInt(s, 10, 0)\<close> converted to
  \<^verbatim>\<open>int\<close>; the value is kept as the integer it denotes.
\<close>

definition Atoi :: "string \<Rightarrow> int option" where
  "Atoi s = map_option sint (ParseInt s)"

subsection \<open>Standard base64 (\<^verbatim>\<open>encoding/base64\<close>, \<^verbatim>\<open>StdEncoding\<close>)\<close>

definition encodeStd :: string where
  "encodeStd = ''ABCDEFGHIJKLMNOPQRSTUVWXYZabcdefghijklmnopqrstuvwxyz0123456789+/''"

fun indexOf :: "char \<Rightarrow> string \<Rightarrow> nat option" where
  "indexOf c [] = None"
| "indexOf c (x # xs) = (if x = c then Some 0 else map_option Suc (indexOf c xs))"

definition decodeMap :: "char \<Rightarrow> nat option" where
  "decodeMap c = indexOf c encodeStd"

text \<open>Three bytes give four characters; a final group of one or two bytes is padded.\<close>

fun EncodeToString :: "string \<Rightarrow> string" where
  "EncodeToString [] = []"
| "EncodeToString [a] =
     (let v = (of_char a :: nat) * 65536
      in [encodeStd ! (v div 262144), encodeStd ! (v div 4096 mod 64), CHR ''='', CHR ''=''])"
| "EncodeToString [a, b] =
     (let v = (of_char a :: nat) * 65536 + of_char b * 256
      in [encodeStd ! (v div 262144), encodeStd ! (v div 4096 mod 64),
          encodeStd ! (v div 64 mod 64), CHR ''=''])"
| "EncodeToString (a # b # c # rest) =
     (let v = (of_char a :: nat) * 65536 + of_char b * 256 + of_char c
      in [encodeStd ! (v div 262144), encodeStd ! (v div 4096 mod 64),
          encodeStd ! (v div 64 mod 64), encodeStd ! (v mod 64)] @ EncodeToString rest)"

text \<open>
  The decoder works on groups of four characters. Padding is accepted in the last group
  only, as its last one or two characters; a character outside the alphabet, or an
  incomplete group, is an error. Go's decoder ignores carriage returns and line feeds
  wherever they stand, so \<open>DecodeString\<close> removes them first.
\<close>

fun decodeQuanta :: "string \<Rightarrow> string option" where
  "decodeQuanta [] = Some []"
| "decodeQuanta (a # b # c # d # rest) =
     (case (decodeMap a, decodeMap b) of
        (Some x, Some y) \<Rightarrow>
          (if c = CHR ''=''
           then (if d = CHR ''='' \<and> rest = []
                 then Some [char_of ((x * 262144 + y * 4096) div 65536)] else None)
           else
             (case decodeMap c of
                None \<Rightarrow> None
              | Some z \<Rightarrow>
                  (if d = CHR ''=''
                   then (if rest = []
                         then Some [char_of ((x * 262144 + y * 4096 + z * 64) div 65536),
                                    char_of ((x * 262144 + y * 4096 + z * 64) div 256)]
                         else None)
                   else
                     (case decodeMap d of
                        None \<Rightarrow> None
                      | Some w \<Rightarrow>
                          (case decodeQuanta rest of
                             None \<Rightarrow> None
                           | Some bs \<Rightarrow>
                               Some (char_of ((x * 262144 + y * 4096 + z * 64 + w) div 65536) #
                                     char_of ((x * 262144 + y * 4096 + z * 64 + w) div 256) #
                                     char_of (x * 262144 + y * 4096 + z * 64 + w) # bs))))))
      | _ \<Rightarrow> None)"
| "decodeQuanta _ = None"

definition DecodeString :: "string \<Rightarrow> string option" where
  "DecodeString s = decodeQuanta (filter (\<lambda>c. c \<noteq> CHR 0x0D \<and> c \<noteq> CHR 0x0A) s)"

section \<open>Timestamps (\<^verbatim>\<open>time.Time\<close>, \<^verbatim>\<open>Format\<close> and \<^verbatim>\<open>Parse\<close>)\<close>

text \<open>
  A \<^verbatim>\<open>time.Time\<close> is modelled by what \<^verbatim>\<open>Format\<close> reads from it and \<^verbatim>\<open>Parse\<close> builds it
  from: the calendar date and clock time in the value's own time zone, the nanosecond
  within the second, and the zone's offset east of UTC in seconds. Two values of the
  model that are equal denote the same instant (\<^verbatim>\<open>t.Equal(u)\<close>) with the same offset.
  The zero \<^verbatim>\<open>time.Time{}\<close> is midnight UTC of January 1 of year 1.
\<close>

record Time =
  Year :: int
  Month :: int
  Day :: int
  Hour :: int
  Minute :: int
  Second :: int
  Nanosecond :: int
  Offset :: int

definition zeroTime :: Time where
  "zeroTime = \<lparr>Year = 1, Month = 1, Day = 1, Hour = 0, Minute = 0, Second = 0,
     Nanosecond = 0, Offset = 0\<rparr>"

definition isLeap :: "int \<Rightarrow> bool" where
  "isLeap y \<longleftrightarrow> y mod 4 = 0 \<and> (y mod 100 \<noteq> 0 \<or> y mod 400 = 0)"

definition daysIn :: "int \<Rightarrow> int \<Rightarrow> int" where
  "daysIn m y =
     (if m = 2 then (if isLeap y then 29 else 28)
      else if m = 4 \<or> m = 6 \<or> m = 9 \<or> m = 11 then 30 else 31)"

text \<open>
  The values a \<^verbatim>\<open>time.Time\<close> can present: a real calendar date and clock time.
\<close>

definition validTime :: "Time \<Rightarrow> bool" where
  "validTime t \<longleftrightarrow>
     1 \<le> Month t \<and> Month t \<le> 12 \<and> 1 \<le> Day t \<and> Day t \<le> daysIn (Month t) (Year t) \<and>
     0 \<le> Hour t \<and> Hour t < 24 \<and> 0 \<le> Minute t \<and> Minute t < 60 \<and>
     0 \<le> Second t \<and> Second t < 60 \<and> 0 \<le> Nanosecond t \<and> Nanosecond t < 1000000000"

subsection \<open>Formatting with the layout \<^verbatim>\<open>time.RFC3339\<close>\<close>

text \<open>
  \<^verbatim>\<open>appendInt\<close> writes a sign for a negative number and pads the digits with zeros up to
  the width. The zone is \<^verbatim>\<open>Z\<close> for offset 0 and otherwise sign, hours and minutes of the
  offset, whose seconds are dropped (Go's integer division truncates toward zero).
\<close>

definition appendInt :: "int \<Rightarrow> nat \<Rightarrow> string" where
  "appendInt x width =
     (if x < 0 then ''-'' else []) @
     replicate (width - length (digits (nat \<bar>x\<bar>))) (CHR ''0'') @ digits (nat \<bar>x\<bar>)"

definition formatZone :: "int \<Rightarrow> string" where
  "formatZone off =
     (if off = 0 then ''Z''
      else
        let zone = (if off < 0 then - ((- off) div 60) else off div 60)
        in (if zone < 0 then ''-'' else ''+'') @
           appendInt (\<bar>zone\<bar> div 60) 2 @ '':'' @ appendInt (\<bar>zone\<bar> mod 60) 2)"

definition FormatRFC3339 :: "Time \<Rightarrow> string" where
  "FormatRFC3339 t =
     appendInt (Year t) 4 @ ''-'' @ appendInt (Month t) 2 @ ''-'' @ appendInt (Day t) 2 @
     ''T'' @ appendInt (Hour t) 2 @ '':'' @ appendInt (Minute t) 2 @ '':'' @
     appendInt (Second t) 2 @ formatZone (Offset t)"

subsection \<open>Parsing with a layout\<close>

text \<open>
  A layout is cut into its elements; the ones the layouts of this repository contain are
  \<^verbatim>\<open>2006\<close>, \<^verbatim>\<open>01\<close>, \<^verbatim>\<open>02\<close>, \<^verbatim>\<open>15\<close>, \<^verbatim>\<open>04\<close>, \<^verbatim>\<open>05\<close> and \<^verbatim>\<open>Z07:00\<close>; the text between two
  elements is a literal.
\<close>

datatype chunk =
    stdLit string
  | stdLongYear
  | stdZeroMonth
  | stdZeroDay
  | stdHour
  | stdZeroMinute
  | stdZeroSecond
  | stdISO8601ColonTZ

definition consLit :: "char \<Rightarrow> chunk list \<Rightarrow> chunk list" where
  "consLit c cs = (case cs of stdLit p # rest \<Rightarrow> stdLit (c # p) # rest | _ \<Rightarrow> stdLit [c] # cs)"

function layoutChunks :: "string \<Rightarrow> chunk list" where
  "layoutChunks layout =
     (if layout = [] then []
      else if prefix ''2006'' layout then stdLongYear # layoutChunks (drop 4 layout)
      else if prefix ''Z07:00'' layout then stdISO8601ColonTZ # layoutChunks (drop 6 layout)
      else if prefix ''01'' layout then stdZeroMonth # layoutChunks (drop 2 layout)
      else if prefix ''02'' layout then stdZeroDay # layoutChunks (drop 2 layout)
      else if prefix ''15'' layout then stdHour # layoutChunks (drop 2 layout)
      else if prefix ''04'' layout then stdZeroMinute # layoutChunks (drop 2 layout)
      else if prefix ''05'' layout then stdZeroSecond # layoutChunks (drop 2 layout)
      else consLit (hd layout) (layoutChunks (tl layout)))"
  by pat_completeness auto
termination
  by (relation "measure length") (auto simp: prefix_def)

declare layoutChunks.simps [simp del]

definition RFC3339 :: string where
  "RFC3339 = ''2006-01-02T15:04:05Z07:00''"

text \<open>The variables of \<^verbatim>\<open>time.Parse\<close>, with the initial values of the source.\<close>

record parseState =
  p_year :: int
  p_month :: int
  p_day :: int
  p_hour :: int
  p_min :: int
  p_sec :: int
  p_nsec :: int
  p_utc :: bool
  p_zoneOffset :: int

definition initParse :: parseState where
  "initParse = \<lparr>p_year = 0, p_month = - 1, p_day = - 1, p_hour = 0, p_min = 0, p_sec = 0,
     p_nsec = 0, p_utc = False, p_zoneOffset = - 1\<rparr>"

definition cutspace :: "string \<Rightarrow> string" where
  "cutspace s = dropWhile (\<lambda>c. c = CHR '' '') s"

text \<open>
  \<^verbatim>\<open>skip\<close> consumes a literal of the layout from the value: a space of the layout stands
  for any number of spaces, every other byte for itself.
\<close>

function skip :: "string \<Rightarrow> string \<Rightarrow> string option" where
  "skip v [] = Some v"
| "skip v (p # ps) =
     (if p = CHR '' ''
      then (if v \<noteq> [] \<and> hd v \<noteq> CHR '' '' then None else skip (cutspace v) (cutspace ps))
      else (case v of [] \<Rightarrow> None | c # cs \<Rightarrow> if c = p then skip cs ps else None))"
  by pat_completeness auto
termination
  by (relation "measure (\<lambda>(v, p). length p)")
    (auto simp: cutspace_def less_Suc_eq_le length_dropWhile_le)

text \<open>
  \<^verbatim>\<open>getnum\<close> reads one or two digits; with \<^verbatim>\<open>fixed\<close> it insists on two.
\<close>

definition getnum :: "string \<Rightarrow> bool \<Rightarrow> (int \<times> string) option" where
  "getnum s fixed =
     (case s of
        [] \<Rightarrow> None
      | c0 # r0 \<Rightarrow>
          if isDigit c0 then
            (case r0 of
               [] \<Rightarrow> (if fixed then None else Some (int (digitVal c0), r0))
             | c1 # r1 \<Rightarrow>
                 if isDigit c1 then Some (int (digitVal c0 * 10 + digitVal c1), r1)
                 else (if fixed then None else Some (int (digitVal c0), r0)))
          else None)"

text \<open>
  \<^verbatim>\<open>atoi\<close> of package \<^verbatim>\<open>time\<close>: an optional sign and then digits only; more than
  \<open>2^63\<close> is an overflow error. (The callers below pass at most nine digits.)
\<close>

definition atoi :: "string \<Rightarrow> int option" where
  "atoi s =
     (let neg = (s \<noteq> [] \<and> hd s = CHR ''-'');
          body = (if s \<noteq> [] \<and> (hd s = CHR ''-'' \<or> hd s = CHR ''+'') then tl s else s)
      in if list_all isDigit body \<and> digitsVal body \<le> 2 ^ 63
         then Some (if neg then - int (digitsVal body) else int (digitsVal body))
         else None)"

definition commaOrPeriod :: "char \<Rightarrow> bool" where
  "commaOrPeriod c \<longleftrightarrow> c = CHR ''.'' \<or> c = CHR '',''"

definition parseNanoseconds :: "string \<Rightarrow> nat \<Rightarrow> int option" where
  "parseNanoseconds v nbytes =
     (if v \<noteq> [] \<and> commaOrPeriod (hd v) then
        (let nb = min nbytes 10
         in case atoi (take (nb - 1) (drop 1 v)) of
              None \<Rightarrow> None
            | Some ns \<Rightarrow> if ns < 0 then None else Some (ns * 10 ^ (10 - nb)))
      else None)"

text \<open>
  One step per layout element, in the order of the layout; any error or range error ends
  the parse. After the last element nothing may be left of the value. A fractional
  second in the value is accepted after the seconds although none of the layouts has one.
\<close>

fun parseChunks :: "chunk list \<Rightarrow> string \<Rightarrow> parseState \<Rightarrow> parseState option" where
  "parseChunks [] v st = (if v = [] then Some st else None)"
| "parseChunks (stdLit p # cs) v st =
     (case skip v p of None \<Rightarrow> None | Some v' \<Rightarrow> parseChunks cs v' st)"
| "parseChunks (stdLongYear # cs) v st =
     (if 4 \<le> length v \<and> isDigit (hd v) then
        (case atoi (take 4 v) of
           None \<Rightarrow> None
         | Some y \<Rightarrow> parseChunks cs (drop 4 v) (st\<lparr>p_year := y\<rparr>))
      else None)"
| "parseChunks (stdZeroMonth # cs) v st =
     (case getnum v True of
        None \<Rightarrow> None
      | Some (m, v') \<Rightarrow>
          if m \<le> 0 \<or> 12 < m then None else parseChunks cs v' (st\<lparr>p_month := m\<rparr>))"
| "parseChunks (stdZeroDay # cs) v st =
     (case getnum v True of
        None \<Rightarrow> None
      | Some (d, v') \<Rightarrow> parseChunks cs v' (st\<lparr>p_day := d\<rparr>))"
| "parseChunks (stdHour # cs) v st =
     (case getnum v False of
        None \<Rightarrow> None
      | Some (h, v') \<Rightarrow>
          if h < 0 \<or> 24 \<le> h then None else parseChunks cs v' (st\<lparr>p_hour := h\<rparr>))"
| "parseChunks (stdZeroMinute # cs) v st =
     (case getnum v True of
        None \<Rightarrow> None
      | Some (m, v') \<Rightarrow>
          if m < 0 \<or> 60 \<le> m then None else parseChunks cs v' (st\<lparr>p_min := m\<rparr>))"
| "parseChunks (stdZeroSecond # cs) v st =
     (case getnum v True of
        None \<Rightarrow> None
      | Some (s, v') \<Rightarrow>
          if s < 0 \<or> 60 \<le> s then None
          else if 2 \<le> length v' \<and> commaOrPeriod (hd v') \<and> isDigit (v' ! 1) then
            (let n = 2 + length (takeWhile isDigit (drop 2 v'))
             in case parseNanoseconds v' n of
                  None \<Rightarrow> None
                | Some ns \<Rightarrow> parseChunks cs (drop n v') (st\<lparr>p_sec := s, p_nsec := ns\<rparr>))
          else parseChunks cs v' (st\<lparr>p_sec := s\<rparr>))"
| "parseChunks (stdISO8601ColonTZ # cs) v st =
     (if v \<noteq> [] \<and> hd v = CHR ''Z'' then parseChunks cs (tl v) (st\<lparr>p_utc := True\<rparr>)
      else if length v < 6 then None
      else if v ! 3 \<noteq> CHR '':'' then None
      else
        (case getnum (take 2 (drop 1 v)) True of
           None \<Rightarrow> None
         | Some (hr, _) \<Rightarrow>
             (case getnum (take 2 (drop 4 v)) True of
                None \<Rightarrow> None
              | Some (mm, _) \<Rightarrow>
                  if 24 < hr \<or> 60 < mm then None
                  else if hd v = CHR ''+''
                  then parseChunks cs (drop 6 v) (st\<lparr>p_zoneOffset := (hr * 60 + mm) * 60\<rparr>)
                  else if hd v = CHR ''-''
                  then parseChunks cs (drop 6 v) (st\<lparr>p_zoneOffset := - ((hr * 60 + mm) * 60)\<rparr>)
                  else None)))"

text \<open>
  A month or day the layout does not have is 1; the day must exist in the month. The
  result is in UTC unless the value carried an offset.
\<close>

definition finishParse :: "parseState \<Rightarrow> Time option" where
  "finishParse st =
     (let month = (if p_month st < 0 then 1 else p_month st);
          day = (if p_day st < 0 then 1 else p_day st)
      in if day < 1 \<or> daysIn month (p_year st) < day then None
         else Some \<lparr>Year = p_year st, Month = month, Day = day, Hour = p_hour st,
                Minute = p_min st, Second = p_sec st, Nanosecond = p_nsec st,
                Offset = (if p_utc st then 0
                          else if p_zoneOffset st \<noteq> - 1 then p_zoneOffset st else 0)\<rparr>)"

definition Parse :: "string \<Rightarrow> string \<Rightarrow> Time option" where
  "Parse layout v =
     (case parseChunks (layoutChunks layout) v initParse of
        None \<Rightarrow> None
      | Some st \<Rightarrow> finishParse st)"

section \<open>Pagination cursors (package api, \<^verbatim>\<open>pagination.go\<close>)\<close>

text \<open>
  The error of \<^verbatim>\<open>DecodeCursor\<close> is its message; \<open>Inr\<close> is the result with a nil error.
\<close>

definition EncodeCursor :: "Time \<Rightarrow> int64 \<Rightarrow> string" where
  "EncodeCursor ts ident = EncodeToString (FormatRFC3339 ts @ ''|'' @ formatInt (sint ident))"

definition DecodeCursor :: "string \<Rightarrow> string + Time \<times> int64" where
  "DecodeCursor s =
     (if s = [] then Inr (zeroTime, 0)
      else
        (case DecodeString s of
           None \<Rightarrow> Inl ''invalid cursor format''
         | Some decoded \<Rightarrow>
             (let parts = Split decoded (CHR ''|'')
              in if length parts \<noteq> 2 then Inl ''invalid cursor format''
                 else
                   (case Parse RFC3339 (parts ! 0) of
                      None \<Rightarrow> Inl ''invalid timestamp in cursor''
                    | Some ts \<Rightarrow>
                        (case ParseInt (parts ! 1) of
                           None \<Rightarrow> Inl ''invalid id in cursor''
                         | Some ident \<Rightarrow> Inr (ts, ident))))))"

section \<open>Floating point (\<^verbatim>\<open>float64\<close>)\<close>

text \<open>
  A \<^verbatim>\<open>float64\<close> is a finite number, an infinity or NaN; a finite value is the real
  number it denotes. The two zeros are the one value \<open>Finite 0\<close>: they compare alike, and
  the program only multiplies by the constants 1000 and 100 and divides by a capacity
  that is greater than zero, where either zero gives a zero. Comparison is that of
  IEEE 754: exact on the finite values, and false whenever an operand is NaN.
  Multiplication and division round, overflow and produce NaN; they are not defined here
  but taken as parameters (\<open>f64mul\<close> and \<open>f64div\<close> below), so nothing proved depends on
  how they round.
\<close>

datatype float64 = Finite real | PosInf | NegInf | NaN

fun f64lt :: "float64 \<Rightarrow> float64 \<Rightarrow> bool" where
  "f64lt (Finite x) (Finite y) = (x < y)"
| "f64lt (Finite x) PosInf = True"
| "f64lt NegInf (Finite y) = True"
| "f64lt NegInf PosInf = True"
| "f64lt a b = False"

text \<open>
  SQLite stores NULL when a NaN is bound to a parameter of a statement; every other
  value is stored as it is. \<open>None\<close> is the nil pointer, bound as NULL.
\<close>

definition sqlReal :: "float64 option \<Rightarrow> float64 option" where
  "sqlReal v = (if v = Some NaN then None else v)"

section \<open>What the repository takes from outside\<close>

text \<open>
  The functions below belong to libraries, not to the repository, and no claim depends on
  what they compute; the model takes them as parameters, and every theorem holds for all
  of them.
  \<^item> \<open>Sum256\<close>: the SHA-256 digest of \<^verbatim>\<open>crypto/sha256\<close>.
  \<^item> \<open>jsonMarshal\<close>: \<^verbatim>\<open>json.Marshal\<close> of a \<^verbatim>\<open>map[string]string\<close>, given its entries in
    the order of their keys (the order in which \<^verbatim>\<open>encoding/json\<close> writes a map).
  \<^item> \<open>strconvParseFloat\<close>: \<^verbatim>\<open>strconv.ParseFloat(s, 64)\<close>; \<open>None\<close> is its error.
  \<^item> \<open>f64mul\<close> and \<open>f64div\<close>: the multiplication and the division of \<^verbatim>\<open>float64\<close>.
  \<^item> \<open>mapOrder\<close>: the order in which a \<^verbatim>\<open>range\<close> loop visits the entries of a map,
    which Go leaves unspecified.
  \<^item> \<open>OpenReader\<close>: \<^verbatim>\<open>excelize.OpenReader\<close>; \<open>None\<close> is its error. A workbook is the
    list of its sheets in the order of \<^verbatim>\<open>GetSheetList\<close>, each with the result of
    \<^verbatim>\<open>GetRows\<close> (\<open>None\<close> when \<^verbatim>\<open>GetRows\<close> fails).
\<close>

type_synonym sheetRows = "string list list"

type_synonym workbook = "(string \<times> sheetRows option) list"

record golib =
  Sum256 :: "string \<Rightarrow> string"
  jsonMarshal :: "(string \<times> string) list \<Rightarrow> string"
  strconvParseFloat :: "string \<Rightarrow> float64 option"
  f64mul :: "float64 \<Rightarrow> float64 \<Rightarrow> float64"
  f64div :: "float64 \<Rightarrow> float64 \<Rightarrow> float64"
  mapOrder :: "(string \<times> string) list \<Rightarrow> (string \<times> string) list"
  OpenReader :: "string \<Rightarrow> workbook option"

definition GetSheetList :: "workbook \<Rightarrow> string list" where
  "GetSheetList f = map fst f"

definition GetRows :: "workbook \<Rightarrow> string \<Rightarrow> sheetRows option" where
  "GetRows f name = (case map_of f name of None \<Rightarrow> None | Some r \<Rightarrow> r)"

subsection \<open>Go maps with string keys\<close>

text \<open>
  A \<^verbatim>\<open>map[string]string\<close> is a list of entries with distinct keys. Writing a key that
  is present replaces its value; reading a key that is absent gives the empty string.
\<close>

type_synonym gomap = "(string \<times> string) list"

fun mapPut :: "string \<Rightarrow> 'v \<Rightarrow> (string \<times> 'v) list \<Rightarrow> (string \<times> 'v) list" where
  "mapPut k v [] = [(k, v)]"
| "mapPut k v ((k', v') # m) = (if k' = k then (k, v) # m else (k', v') # mapPut k v m)"

definition mapGet :: "gomap \<Rightarrow> string \<Rightarrow> string" where
  "mapGet m k = (case map_of m k of None \<Rightarrow> [] | Some v \<Rightarrow> v)"

section \<open>Hashing (package util)\<close>

definition hexDigit :: "nat \<Rightarrow> char" where
  "hexDigit n = ''0123456789abcdef'' ! n"

definition hexEncode :: "string \<Rightarrow> string" where
  "hexEncode bs =
     concat (map (\<lambda>b. [hexDigit ((of_char b :: nat) div 16), hexDigit ((of_char b :: nat) mod 16)]) bs)"

definition SHA256Hex :: "golib \<Rightarrow> string \<Rightarrow> string" where
  "SHA256Hex L bytes = hexEncode (Sum256 L bytes)"

text \<open>
  \<^verbatim>\<open>sort.Strings\<close> orders byte strings lexicographically, which is the order of
  \<open>string\<close> here. (It sorts the caller's slice in place; every caller passes a slice
  it has just built and does not read again.)
\<close>

definition HashRow :: "golib \<Rightarrow> int \<Rightarrow> Time \<Rightarrow> string \<Rightarrow> string list \<Rightarrow> string" where
  "HashRow L vesselID ts stream keys =
     SHA256Hex L (Join ([stream, formatInt vesselID, FormatRFC3339 ts] @ sort keys) ''|'')"

section \<open>Header mapping and value parsing (package ingest)\<close>

definition normalizeHeader :: "string \<Rightarrow> string" where
  "normalizeHeader header =
     ReplaceAll (ReplaceAll (TrimSpace (ToLower header)) (CHR '' '') (CHR ''_''))
       (CHR ''-'') (CHR ''_'')"

text \<open>The mapper is its map from normalized header to original header.\<close>

definition NewHeaderMapper :: "string list \<Rightarrow> gomap" where
  "NewHeaderMapper headers = fold (\<lambda>h m. mapPut (normalizeHeader h) h m) headers []"

fun FindHeader :: "golib \<Rightarrow> gomap \<Rightarrow> string list \<Rightarrow> string \<times> bool" where
  "FindHeader L hm [] = ([], False)"
| "FindHeader L hm (pattern # patterns) =
     (case map_of hm pattern of
        Some original \<Rightarrow> (original, True)
      | None \<Rightarrow>
          (case find (\<lambda>(normalized, original). Contains normalized pattern) (mapOrder L hm) of
             Some (normalized, original) \<Rightarrow> (original, True)
           | None \<Rightarrow> FindHeader L hm patterns))"

definition FindTimestampHeader :: "golib \<Rightarrow> gomap \<Rightarrow> string \<times> bool" where
  "FindTimestampHeader L hm =
     FindHeader L hm
       [''timestamp'', ''ts'', ''time'', ''date'', ''datetime'',
        ''date_time'', ''time_stamp'', ''record_time'', ''log_time'',
        ''created_at'', ''recorded_at'', ''sample_time'', ''measurement_time'',
        ''utc'', ''local_time'', ''system_time'', ''event_time'']"

text \<open>
  \<^verbatim>\<open>ParseFloat\<close> returns a pointer and an error: \<open>Inr None\<close> is (nil, nil), \<open>Inl\<close> the
  error. Every caller in \<^verbatim>\<open>xlsx.go\<close> drops the error and keeps the pointer
  (\<open>floatOrNil\<close>).
\<close>

definition ParseFloat :: "golib \<Rightarrow> string \<Rightarrow> string + float64 option" where
  "ParseFloat L s =
     (if s = [] then Inr None
      else (case strconvParseFloat L (TrimSpace s) of
              None \<Rightarrow> Inl ''strconv.ParseFloat: invalid syntax''
            | Some v \<Rightarrow> Inr (Some v)))"

definition floatOrNil :: "string + float64 option \<Rightarrow> float64 option" where
  "floatOrNil r = (case r of Inl e \<Rightarrow> None | Inr v \<Rightarrow> v)"

definition timestampFormats :: "string list" where
  "timestampFormats =
     [RFC3339,
      ''2006-01-02T15:04:05'',
      ''2006-01-02 15:04:05'',
      ''2006-01-02T15:04'',
      ''2006-01-02 15:04'',
      ''2006-01-02'',
      ''15:04:05'',
      ''15:04'']"

fun firstParse :: "string list \<Rightarrow> string \<Rightarrow> Time option" where
  "firstParse [] s = None"
| "firstParse (format # formats) s =
     (case Parse format s of Some t \<Rightarrow> Some t | None \<Rightarrow> firstParse formats s)"

definition ParseTimestamp :: "string \<Rightarrow> string + Time" where
  "ParseTimestamp s =
     (if s = [] then Inl ''empty timestamp''
      else (case firstParse timestampFormats (TrimSpace s) of
              Some t \<Rightarrow> Inr t
            | None \<Rightarrow> Inl (''unable to parse timestamp: '' @ TrimSpace s)))"

text \<open>
  \<^verbatim>\<open>BuildExtraJSON\<close> keeps the entries of the row whose column is not mapped and whose
  value is not empty.
\<close>

definition BuildExtraJSON :: "golib \<Rightarrow> gomap \<Rightarrow> string list \<Rightarrow> string" where
  "BuildExtraJSON L row mappedCols =
     (let extra = filter (\<lambda>(col, val). \<not> List.member mappedCols col \<and> val \<noteq> []) row
      in if extra = [] then ''{}'' else jsonMarshal L (sort_key fst extra))"

section \<open>Field validators (package ingest)\<close>

text \<open>
  A Go \<^verbatim>\<open>*float64\<close> argument is an optional value: \<open>None\<close> is the nil pointer.
  \<^verbatim>\<open>*x < c\<close> is \<open>f64lt x (Finite c)\<close> and \<^verbatim>\<open>*x > c\<close> is \<open>f64lt (Finite c) x\<close>.

  \<^verbatim>\<open>var warnings []string\<close> followed by conditional \<^verbatim>\<open>append\<close>s is the concatenation of
  one optional singleton per check, in the order of the source.
\<close>

definition ValidateEngineData ::
    "float64 option \<Rightarrow> float64 option \<Rightarrow> float64 option \<Rightarrow> string list" where
  "ValidateEngineData rpm temp pressure =
     (if rpm \<noteq> None \<and> f64lt (the rpm) (Finite 0) then [''negative rpm''] else []) @
     (if pressure \<noteq> None \<and> f64lt (the pressure) (Finite 0)
      then [''negative oil pressure''] else [])"

definition ValidateFuelData ::
    "float64 option \<Rightarrow> float64 option \<Rightarrow> float64 option \<Rightarrow> string list" where
  "ValidateFuelData level volume temp =
     (if level \<noteq> None \<and> (f64lt (the level) (Finite 0) \<or> f64lt (Finite 100) (the level))
      then [''invalid fuel level percentage''] else []) @
     (if volume \<noteq> None \<and> f64lt (the volume) (Finite 0) then [''negative fuel volume''] else [])"

definition ValidateGeneratorData ::
    "float64 option \<Rightarrow> float64 option \<Rightarrow> float64 option \<Rightarrow> float64 option \<Rightarrow> string list" where
  "ValidateGeneratorData load voltage frequency fuelRate =
     (if load \<noteq> None \<and> f64lt (the load) (Finite 0) then [''negative generator load''] else []) @
     (if voltage \<noteq> None \<and> f64lt (the voltage) (Finite 0) then [''negative voltage''] else []) @
     (if frequency \<noteq> None \<and>
         (f64lt (the frequency) (Finite 45) \<or> f64lt (Finite 70) (the frequency))
      then [''frequency out of range (45-70 Hz)''] else []) @
     (if fuelRate \<noteq> None \<and> f64lt (the fuelRate) (Finite 0) then [''negative fuel rate''] else [])"

definition ValidateLocationData ::
    "float64 option \<Rightarrow> float64 option \<Rightarrow> float64 option \<Rightarrow> float64 option \<Rightarrow> string list" where
  "ValidateLocationData latitude longitude course speed =
     (if latitude \<noteq> None \<and>
         (f64lt (the latitude) (Finite (- 90)) \<or> f64lt (Finite 90) (the latitude))
      then [''latitude out of range (-90 to 90)''] else []) @
     (if longitude \<noteq> None \<and>
         (f64lt (the longitude) (Finite (- 180)) \<or> f64lt (Finite 180) (the longitude))
      then [''longitude out of range (-180 to 180)''] else []) @
     (if course \<noteq> None \<and> (f64lt (the course) (Finite 0) \<or> f64lt (Finite 360) (the course))
      then [''course out of range (0-360 degrees)''] else []) @
     (if speed \<noteq> None \<and> f64lt (the speed) (Finite 0) then [''negative speed''] else [])"

section \<open>The database (\<^verbatim>\<open>schema.sql\<close>) and the statements the ingestion runs\<close>

text \<open>
  A table is the list of its rows in the order of insertion. The columns
  \<^verbatim>\<open>created_at\<close> and \<^verbatim>\<open>updated_at\<close> are filled by the database and never read by
  the ingestion; they are left out. A reading table is its common columns and the
  columns of its stream. \<^verbatim>\<open>vessel_stream_latest\<close> has the primary key
  (vessel_id, stream), so it is a map from that pair.

  Failures of the storage itself (I/O, a closed connection) are not modelled: a statement
  fails only where a constraint of the schema rejects it.
\<close>

record vessel =
  vessel_id :: int
  vessel_imo :: "string option"
  vessel_name :: "string option"
  vessel_flag :: "string option"
  vessel_type :: "string option"

record upload =
  upload_id :: int
  upload_vessel_id :: int
  source_filename :: string
  file_hash :: string
  uploaded_at :: Time

record 'a reading =
  reading_id :: int
  reading_vessel_id :: int
  reading_ts :: Time
  row_hash :: string
  extra_json :: string
  payload :: 'a

record engineFields =
  engine_no :: "int option"
  engine_rpm :: "float64 option"
  engine_temp_c :: "float64 option"
  oil_pressure_bar :: "float64 option"
  engine_alarms :: "string option"

record fuelFields =
  tank_no :: "int option"
  level_percent :: "float64 option"
  volume_liters :: "float64 option"
  fuel_temp_c :: "float64 option"

record generatorFields =
  gen_no :: "int option"
  load_kw :: "float64 option"
  voltage_v :: "float64 option"
  frequency_hz :: "float64 option"
  fuel_rate_lph :: "float64 option"

record cctvFields =
  cam_id :: "string option"
  cctv_status :: "string option"
  uptime_percent :: "float64 option"

record impactFields =
  sensor_id :: "string option"
  accel_g :: "float64 option"
  shock_g :: "float64 option"
  impact_notes :: "string option"

record locationFields =
  loc_latitude :: "float64 option"
  loc_longitude :: "float64 option"
  course_degrees :: "float64 option"
  speed_knots :: "float64 option"
  loc_status :: "string option"

record db =
  vessels :: "vessel list"
  uploads :: "upload list"
  engine_readings :: "engineFields reading list"
  fuel_tank_readings :: "fuelFields reading list"
  generator_readings :: "generatorFields reading list"
  cctv_status_readings :: "cctvFields reading list"
  impact_vibration_readings :: "impactFields reading list"
  location_readings :: "locationFields reading list"
  vessel_stream_latest :: "int \<times> string \<Rightarrow> Time option"

text \<open>The id of a new row of an \<^verbatim>\<open>AUTOINCREMENT\<close> table no row is ever deleted from.\<close>

definition nextId :: "int list \<Rightarrow> int" where
  "nextId ids = fold max ids 0 + 1"

text \<open>\<^verbatim>\<open>SELECT id FROM uploads WHERE file_hash = ?\<close>; \<open>None\<close> is \<^verbatim>\<open>sql.ErrNoRows\<close>.\<close>

definition selectUploadByHash :: "db \<Rightarrow> string \<Rightarrow> int option" where
  "selectUploadByHash d h =
     (case find (\<lambda>u. file_hash u = h) (uploads d) of None \<Rightarrow> None | Some u \<Rightarrow> Some (upload_id u))"

text \<open>\<^verbatim>\<open>SELECT id FROM vessels WHERE imo = ?\<close>\<close>

definition selectVesselByIMO :: "db \<Rightarrow> string \<Rightarrow> int option" where
  "selectVesselByIMO d imo =
     (case find (\<lambda>v. vessel_imo v = Some imo) (vessels d) of
        None \<Rightarrow> None
      | Some v \<Rightarrow> Some (vessel_id v))"

text \<open>
  \<^verbatim>\<open>INSERT INTO vessels (imo, name, flag, type)\<close>, with \<^verbatim>\<open>LastInsertId\<close>. The column
  \<^verbatim>\<open>imo\<close> is \<^verbatim>\<open>UNIQUE\<close>: a second row with the same non-null IMO is rejected.
\<close>

definition insertVessel ::
    "string option \<Rightarrow> string option \<Rightarrow> string option \<Rightarrow> string option \<Rightarrow> db \<Rightarrow> string + int \<times> db" where
  "insertVessel imo name flag vtype d =
     (if imo \<noteq> None \<and> list_ex (\<lambda>v. vessel_imo v = imo) (vessels d)
      then Inl ''UNIQUE constraint failed: vessels.imo''
      else
        (let newId = nextId (map vessel_id (vessels d))
         in Inr (newId,
              d\<lparr>vessels := vessels d @
                [\<lparr>vessel_id = newId, vessel_imo = imo, vessel_name = name,
                  vessel_flag = flag, vessel_type = vtype\<rparr>]\<rparr>)))"

text \<open>\<^verbatim>\<open>UPDATE vessels SET name = ?, flag = ?, type = ? WHERE id = ?\<close>\<close>

definition updateVessel ::
    "int \<Rightarrow> string option \<Rightarrow> string option \<Rightarrow> string option \<Rightarrow> db \<Rightarrow> db" where
  "updateVessel ident name flag vtype d =
     d\<lparr>vessels :=
         map (\<lambda>v. if vessel_id v = ident
                  then v\<lparr>vessel_name := name, vessel_flag := flag, vessel_type := vtype\<rparr>
                  else v)
           (vessels d)\<rparr>"

text \<open>
  \<^verbatim>\<open>INSERT OR IGNORE\<close> into a reading table, whose rows are unique in
  (vessel_id, ts, row_hash): a row that is there already is left alone, without an error.
\<close>

definition insertOrIgnore ::
    "int \<Rightarrow> Time \<Rightarrow> string \<Rightarrow> string \<Rightarrow> 'a \<Rightarrow> 'a reading list \<Rightarrow> 'a reading list" where
  "insertOrIgnore vesselID ts rowHash extraJSON p table =
     (if list_ex (\<lambda>r. reading_vessel_id r = vesselID \<and> reading_ts r = ts \<and> row_hash r = rowHash) table
      then table
      else table @
        [\<lparr>reading_id = nextId (map reading_id table), reading_vessel_id = vesselID,
          reading_ts = ts, row_hash = rowHash, extra_json = extraJSON, payload = p\<rparr>])"

section \<open>Sheet processing (package ingest, \<^verbatim>\<open>xlsx.go\<close>)\<close>

subsection \<open>What every row loop does\<close>

text \<open>
  The map from header to cell of one data row: cells beyond the last header are dropped.
\<close>

definition mkRow :: "string list \<Rightarrow> string list \<Rightarrow> gomap" where
  "mkRow headers cells = fold (\<lambda>(h, cell) row. mapPut h cell row) (zip headers cells) []"

text \<open>
  The timestamp of a row: the parsed cell of the timestamp column when there is such a
  column and the cell parses, the default otherwise.
\<close>

definition rowTimestamp :: "Time \<Rightarrow> bool \<Rightarrow> string \<Rightarrow> gomap \<Rightarrow> Time" where
  "rowTimestamp defaultTS hasTS tsCol row =
     (if hasTS \<and> tsCol \<noteq> []
      then (case ParseTimestamp (mapGet row tsCol) of Inr parsedTS \<Rightarrow> parsedTS | Inl e \<Rightarrow> defaultTS)
      else defaultTS)"

text \<open>
  The number of an engine, tank or generator: the first run of digits of the cell
  (the regular expression \<^verbatim>\<open>\d+\<close>), when there is one and \<^verbatim>\<open>strconv.Atoi\<close> accepts it.
\<close>

definition FindStringDigits :: "string \<Rightarrow> string" where
  "FindStringDigits s = takeWhile isDigit (dropWhile (\<lambda>c. \<not> isDigit c) s)"

definition numberOf :: "string \<Rightarrow> gomap \<Rightarrow> int option" where
  "numberOf col row =
     (if col \<noteq> [] then
        (let match = FindStringDigits (mapGet row col)
         in if match \<noteq> [] then Atoi match else None)
      else None)"

definition floatOf :: "golib \<Rightarrow> string \<Rightarrow> gomap \<Rightarrow> float64 option" where
  "floatOf L col row = (if col \<noteq> [] then floatOrNil (ParseFloat L (mapGet row col)) else None)"

definition textOf :: "string \<Rightarrow> gomap \<Rightarrow> string option" where
  "textOf col row = (if col \<noteq> [] \<and> mapGet row col \<noteq> [] then Some (mapGet row col) else None)"

definition hashKeysOf :: "string option \<Rightarrow> string \<Rightarrow> string list" where
  "hashKeysOf tag extraJSON = (case tag of None \<Rightarrow> [] | Some k \<Rightarrow> [k]) @ [extraJSON]"

definition readError :: "string \<Rightarrow> string list" where
  "readError sheetName = [''error reading '' @ sheetName @ '' sheet'']"

text \<open>
  The data rows of a sheet with the loop index \<^verbatim>\<open>i\<close> of the source (the header row is
  \<^verbatim>\<open>rows[0]\<close>); \<open>None\<close> when the sheet cannot be read or has no data row.
\<close>

definition dataRows :: "workbook \<Rightarrow> string \<Rightarrow> (string list \<times> (nat \<times> string list) list) option" where
  "dataRows f sheetName =
     (case GetRows f sheetName of
        None \<Rightarrow> None
      | Some rows \<Rightarrow>
          if length rows < 2 then None
          else Some (hd rows, zip [1..<length rows] (tl rows)))"

text \<open>The state of a row loop: rows inserted, warnings, and the table.\<close>

type_synonym 'a loopState = "nat \<times> string list \<times> 'a reading list"

subsection \<open>Engines\<close>

definition engineRow ::
    "golib \<Rightarrow> int \<Rightarrow> Time \<Rightarrow> string list \<Rightarrow> bool \<Rightarrow> string \<Rightarrow> string \<Rightarrow> string \<Rightarrow> string \<Rightarrow> string \<Rightarrow>
     string \<Rightarrow> nat \<times> string list \<Rightarrow> engineFields loopState \<Rightarrow> engineFields loopState" where
  "engineRow L vesselID defaultTS headers hasTS tsCol engineNoCol rpmCol tempCol pressureCol
       alarmsCol =
     (\<lambda>(i, cells) (inserted, warnings, table).
        let row = mkRow headers cells;
            ts = rowTimestamp defaultTS hasTS tsCol row;
            engineNo = numberOf engineNoCol row;
            rpm = floatOf L rpmCol row;
            tempC = floatOf L tempCol row;
            oilPressure = floatOf L pressureCol row;
            alarms = textOf alarmsCol row;
            warns = ValidateEngineData rpm tempC oilPressure
        in if warns \<noteq> []
           then (inserted,
                 warnings @ [''row '' @ formatInt (int i + 1) @ '' engines: '' @ Join warns '', ''],
                 table)
           else
             (let extraJSON = BuildExtraJSON L row
                    [tsCol, engineNoCol, rpmCol, tempCol, pressureCol, alarmsCol];
                  hashKeys = hashKeysOf
                    (map_option (\<lambda>n. ''engine_no:'' @ formatInt n) engineNo) extraJSON;
                  rowHash = HashRow L vesselID ts ''engines'' hashKeys
              in (inserted + 1, warnings,
                  insertOrIgnore vesselID ts rowHash extraJSON
                    \<lparr>engine_no = engineNo, engine_rpm = sqlReal rpm,
                      engine_temp_c = sqlReal tempC, oil_pressure_bar = sqlReal oilPressure,
                      engine_alarms = alarms\<rparr> table)))"

definition processEngineSheet ::
    "golib \<Rightarrow> workbook \<Rightarrow> string \<Rightarrow> int \<Rightarrow> Time \<Rightarrow> engineFields reading list \<Rightarrow> engineFields loopState" where
  "processEngineSheet L f sheetName vesselID defaultTS table =
     (case dataRows f sheetName of
        None \<Rightarrow> (0, readError sheetName, table)
      | Some (headers, rows) \<Rightarrow>
          (let mapper = NewHeaderMapper headers;
               tsCol = fst (FindTimestampHeader L mapper);
               hasTS = snd (FindTimestampHeader L mapper);
               engineNoCol = fst (FindHeader L mapper [''engine_no'', ''engine'', ''eng_no'']);
               rpmCol = fst (FindHeader L mapper [''rpm'']);
               tempCol = fst (FindHeader L mapper [''temp'', ''temperature'', ''temp_c'']);
               pressureCol = fst (FindHeader L mapper [''oil_pressure'', ''pressure'', ''oil_press'']);
               alarmsCol = fst (FindHeader L mapper [''alarm'', ''alarms'', ''alert''])
           in fold (engineRow L vesselID defaultTS headers hasTS tsCol engineNoCol rpmCol tempCol
                      pressureCol alarmsCol) rows (0, [], table)))"

subsection \<open>Fuel tanks\<close>

definition isM3Header :: "string \<Rightarrow> bool" where
  "isM3Header h \<longleftrightarrow> Contains (ToLower h) ''(m3)'' \<or> Contains (ToLower h) ''m3''"

text \<open>A volume cell in liters: the parsed value, times 1000 under a cubic-meter header.\<close>

definition litersOf :: "golib \<Rightarrow> string \<Rightarrow> gomap \<Rightarrow> float64 option" where
  "litersOf L col row =
     (case floatOrNil (ParseFloat L (mapGet row col)) of
        None \<Rightarrow> None
      | Some v \<Rightarrow> Some (if isM3Header col then f64mul L v (Finite 1000) else v))"

definition capLitersOf :: "golib \<Rightarrow> string \<Rightarrow> gomap \<Rightarrow> float64 option" where
  "capLitersOf L capCol row = (if capCol \<noteq> [] then litersOf L capCol row else None)"

definition curLitersOf :: "golib \<Rightarrow> string \<Rightarrow> string \<Rightarrow> gomap \<Rightarrow> float64 option" where
  "curLitersOf L capCol curCol row =
     (if curCol \<noteq> [] then litersOf L curCol row
      else if capCol \<noteq> [] then litersOf L capCol row
      else None)"

definition levelPercentOf :: "golib \<Rightarrow> float64 option \<Rightarrow> float64 option \<Rightarrow> float64 option" where
  "levelPercentOf L curLiters capLiters =
     (if curLiters \<noteq> None \<and> capLiters \<noteq> None \<and> f64lt (Finite 0) (the capLiters)
      then Some (f64mul L (f64div L (the curLiters) (the capLiters)) (Finite 100))
      else None)"

definition fuelRow ::
    "golib \<Rightarrow> int \<Rightarrow> Time \<Rightarrow> string list \<Rightarrow> bool \<Rightarrow> string \<Rightarrow> string \<Rightarrow> string \<Rightarrow> string \<Rightarrow> string \<Rightarrow>
     nat \<times> string list \<Rightarrow> fuelFields loopState \<Rightarrow> fuelFields loopState" where
  "fuelRow L vesselID defaultTS headers hasTS tsCol tankNoCol capCol curCol tempCol =
     (\<lambda>(i, cells) (inserted, warnings, table).
        let row = mkRow headers cells;
            ts = rowTimestamp defaultTS hasTS tsCol row;
            tankNo = numberOf tankNoCol row;
            capLiters = capLitersOf L capCol row;
            curLiters = curLitersOf L capCol curCol row;
            tempC = floatOf L tempCol row;
            levelPercent = levelPercentOf L curLiters capLiters;
            warns = ValidateFuelData levelPercent curLiters tempC
        in if warns \<noteq> []
           then (inserted,
                 warnings @ [''row '' @ formatInt (int i + 1) @ '' fuel: '' @ Join warns '', ''],
                 table)
           else
             (let extraJSON = BuildExtraJSON L row
                    (filter (\<lambda>c. c \<noteq> []) [tsCol, tankNoCol, capCol, curCol, tempCol]);
                  hashKeys = hashKeysOf
                    (map_option (\<lambda>n. ''tank_no:'' @ formatInt n) tankNo) extraJSON;
                  rowHash = HashRow L vesselID ts ''fuel'' hashKeys
              in (inserted + 1, warnings,
                  insertOrIgnore vesselID ts rowHash extraJSON
                    \<lparr>tank_no = tankNo, level_percent = sqlReal levelPercent,
                      volume_liters = sqlReal curLiters, fuel_temp_c = sqlReal tempC\<rparr> table)))"

definition processFuelSheet ::
    "golib \<Rightarrow> workbook \<Rightarrow> string \<Rightarrow> int \<Rightarrow> Time \<Rightarrow> fuelFields reading list \<Rightarrow> fuelFields loopState" where
  "processFuelSheet L f sheetName vesselID defaultTS table =
     (case dataRows f sheetName of
        None \<Rightarrow> (0, readError sheetName, table)
      | Some (headers, rows) \<Rightarrow>
          (let mapper = NewHeaderMapper headers;
               tsCol = fst (FindTimestampHeader L mapper);
               hasTS = snd (FindTimestampHeader L mapper);
               tankNoCol = fst (FindHeader L mapper [''tank_no'', ''tank'', ''tank_id'', ''Tank ID'']);
               capCol = fst (FindHeader L mapper
                 [''capacity'', ''Capacity(m3)'', ''volume'', ''volume_liters'']);
               curCol = fst (FindHeader L mapper
                 [''current'', ''Current Level(m3)'', ''current_level'', ''current_volume'',
                  ''volume_liters'']);
               tempCol = fst (FindHeader L mapper [''temp'', ''temperature'', ''temp_c''])
           in fold (fuelRow L vesselID defaultTS headers hasTS tsCol tankNoCol capCol curCol tempCol)
                rows (0, [], table)))"

subsection \<open>Generators\<close>

definition generatorRow ::
    "golib \<Rightarrow> int \<Rightarrow> Time \<Rightarrow> string list \<Rightarrow> bool \<Rightarrow> string \<Rightarrow> string \<Rightarrow> string \<Rightarrow> string \<Rightarrow> string \<Rightarrow>
     string \<Rightarrow> nat \<times> string list \<Rightarrow> generatorFields loopState \<Rightarrow> generatorFields loopState" where
  "generatorRow L vesselID defaultTS headers hasTS tsCol genNoCol loadCol voltageCol freqCol
       fuelRateCol =
     (\<lambda>(i, cells) (inserted, warnings, table).
        let row = mkRow headers cells;
            ts = rowTimestamp defaultTS hasTS tsCol row;
            genNo = numberOf genNoCol row;
            loadKW = floatOf L loadCol row;
            voltageV = floatOf L voltageCol row;
            frequencyHz = floatOf L freqCol row;
            fuelRateLPH = floatOf L fuelRateCol row;
            warns = ValidateGeneratorData loadKW voltageV frequencyHz fuelRateLPH
        in if warns \<noteq> []
           then (inserted,
                 warnings @ [''row '' @ formatInt (int i + 1) @ '' generators: '' @ Join warns '', ''],
                 table)
           else
             (let extraJSON = BuildExtraJSON L row
                    [tsCol, genNoCol, loadCol, voltageCol, freqCol, fuelRateCol];
                  hashKeys = hashKeysOf
                    (map_option (\<lambda>n. ''gen_no:'' @ formatInt n) genNo) extraJSON;
                  rowHash = HashRow L vesselID ts ''generators'' hashKeys
              in (inserted + 1, warnings,
                  insertOrIgnore vesselID ts rowHash extraJSON
                    \<lparr>gen_no = genNo, load_kw = sqlReal loadKW, voltage_v = sqlReal voltageV,
                      frequency_hz = sqlReal frequencyHz,
                      fuel_rate_lph = sqlReal fuelRateLPH\<rparr> table)))"

definition processGeneratorSheet ::
    "golib \<Rightarrow> workbook \<Rightarrow> string \<Rightarrow> int \<Rightarrow> Time \<Rightarrow> generatorFields reading list \<Rightarrow>
     generatorFields loopState" where
  "processGeneratorSheet L f sheetName vesselID defaultTS table =
     (case dataRows f sheetName of
        None \<Rightarrow> (0, readError sheetName, table)
      | Some (headers, rows) \<Rightarrow>
          (let mapper = NewHeaderMapper headers;
               tsCol = fst (FindTimestampHeader L mapper);
               hasTS = snd (FindTimestampHeader L mapper);
               genNoCol = fst (FindHeader L mapper [''gen_no'', ''generator'', ''gen'', ''generator_no'']);
               loadCol = fst (FindHeader L mapper [''load'', ''load_kw'', ''power'']);
               voltageCol = fst (FindHeader L mapper [''voltage'', ''volt'', ''voltage_v'']);
               freqCol = fst (FindHeader L mapper [''frequency'', ''freq'', ''frequency_hz'']);
               fuelRateCol = fst (FindHeader L mapper [''fuel_rate'', ''fuel_rate_lph'', ''consumption''])
           in fold (generatorRow L vesselID defaultTS headers hasTS tsCol genNoCol loadCol voltageCol
                      freqCol fuelRateCol) rows (0, [], table)))"

subsection \<open>CCTV\<close>

definition cctvRow ::
    "golib \<Rightarrow> int \<Rightarrow> Time \<Rightarrow> string list \<Rightarrow> bool \<Rightarrow> string \<Rightarrow> string \<Rightarrow> string \<Rightarrow> string \<Rightarrow>
     nat \<times> string list \<Rightarrow> cctvFields loopState \<Rightarrow> cctvFields loopState" where
  "cctvRow L vesselID defaultTS headers hasTS tsCol camIDCol statusCol uptimeCol =
     (\<lambda>(i, cells) (inserted, warnings, table).
        let row = mkRow headers cells;
            ts = rowTimestamp defaultTS hasTS tsCol row;
            camID = textOf camIDCol row;
            status = textOf statusCol row;
            uptimePercent = floatOf L uptimeCol row;
            extraJSON = BuildExtraJSON L row [tsCol, camIDCol, statusCol, uptimeCol];
            hashKeys = hashKeysOf (map_option (\<lambda>c. ''cam_id:'' @ c) camID) extraJSON;
            rowHash = HashRow L vesselID ts ''cctv'' hashKeys
        in (inserted + 1, warnings,
            insertOrIgnore vesselID ts rowHash extraJSON
              \<lparr>cam_id = camID, cctv_status = status,
                uptime_percent = sqlReal uptimePercent\<rparr> table))"

definition processCCTVSheet ::
    "golib \<Rightarrow> workbook \<Rightarrow> string \<Rightarrow> int \<Rightarrow> Time \<Rightarrow> cctvFields reading list \<Rightarrow> cctvFields loopState" where
  "processCCTVSheet L f sheetName vesselID defaultTS table =
     (case dataRows f sheetName of
        None \<Rightarrow> (0, readError sheetName, table)
      | Some (headers, rows) \<Rightarrow>
          (let mapper = NewHeaderMapper headers;
               tsCol = fst (FindTimestampHeader L mapper);
               hasTS = snd (FindTimestampHeader L mapper);
               camIDCol = fst (FindHeader L mapper [''cam_id'', ''camera'', ''camera_id'', ''cam'']);
               statusCol = fst (FindHeader L mapper [''status'', ''state'']);
               uptimeCol = fst (FindHeader L mapper [''uptime'', ''uptime_percent'', ''availability''])
           in fold (cctvRow L vesselID defaultTS headers hasTS tsCol camIDCol statusCol uptimeCol)
                rows (0, [], table)))"

subsection \<open>Impact and vibration\<close>

definition impactRow ::
    "golib \<Rightarrow> int \<Rightarrow> Time \<Rightarrow> string list \<Rightarrow> bool \<Rightarrow> string \<Rightarrow> string \<Rightarrow> string \<Rightarrow> string \<Rightarrow> string \<Rightarrow>
     nat \<times> string list \<Rightarrow> impactFields loopState \<Rightarrow> impactFields loopState" where
  "impactRow L vesselID defaultTS headers hasTS tsCol sensorIDCol accelCol shockCol notesCol =
     (\<lambda>(i, cells) (inserted, warnings, table).
        let row = mkRow headers cells;
            ts = rowTimestamp defaultTS hasTS tsCol row;
            sensorID = textOf sensorIDCol row;
            accelG = floatOf L accelCol row;
            shockG = floatOf L shockCol row;
            notes = textOf notesCol row;
            extraJSON = BuildExtraJSON L row [tsCol, sensorIDCol, accelCol, shockCol, notesCol];
            hashKeys = hashKeysOf (map_option (\<lambda>c. ''sensor_id:'' @ c) sensorID) extraJSON;
            rowHash = HashRow L vesselID ts ''impact'' hashKeys
        in (inserted + 1, warnings,
            insertOrIgnore vesselID ts rowHash extraJSON
              \<lparr>sensor_id = sensorID, accel_g = sqlReal accelG, shock_g = sqlReal shockG,
                impact_notes = notes\<rparr> table))"

definition processImpactSheet ::
    "golib \<Rightarrow> workbook \<Rightarrow> string \<Rightarrow> int \<Rightarrow> Time \<Rightarrow> impactFields reading list \<Rightarrow> impactFields loopState" where
  "processImpactSheet L f sheetName vesselID defaultTS table =
     (case dataRows f sheetName of
        None \<Rightarrow> (0, readError sheetName, table)
      | Some (headers, rows) \<Rightarrow>
          (let mapper = NewHeaderMapper headers;
               tsCol = fst (FindTimestampHeader L mapper);
               hasTS = snd (FindTimestampHeader L mapper);
               sensorIDCol = fst (FindHeader L mapper [''sensor_id'', ''sensor'', ''device_id'']);
               accelCol = fst (FindHeader L mapper [''accel'', ''acceleration'', ''accel_g'']);
               shockCol = fst (FindHeader L mapper [''shock'', ''shock_g'', ''impact'']);
               notesCol = fst (FindHeader L mapper [''notes'', ''note'', ''comment''])
           in fold (impactRow L vesselID defaultTS headers hasTS tsCol sensorIDCol accelCol shockCol
                      notesCol) rows (0, [], table)))"

subsection \<open>Location, from the single data row of the ship-info sheet\<close>

text \<open>
  A field is read when \<^verbatim>\<open>FindHeader\<close> finds a column for it; here the source tests the
  flag \<^verbatim>\<open>found\<close>, not the column name.
\<close>

definition foundFloat :: "golib \<Rightarrow> gomap \<Rightarrow> string list \<Rightarrow> gomap \<Rightarrow> float64 option" where
  "foundFloat L mapper patterns row =
     (if snd (FindHeader L mapper patterns)
      then floatOrNil (ParseFloat L (mapGet row (fst (FindHeader L mapper patterns))))
      else None)"

definition locationStatus :: "golib \<Rightarrow> gomap \<Rightarrow> gomap \<Rightarrow> string option" where
  "locationStatus L mapper row =
     (let statusCol = fst (FindHeader L mapper [''status'', ''vessel_status'', ''nav_status'']);
          found = snd (FindHeader L mapper [''status'', ''vessel_status'', ''nav_status''])
      in if found \<and> mapGet row statusCol \<noteq> [] then Some (mapGet row statusCol) else None)"

definition locationFieldsOf :: "golib \<Rightarrow> gomap \<Rightarrow> gomap \<Rightarrow> locationFields" where
  "locationFieldsOf L mapper row =
     \<lparr>loc_latitude = foundFloat L mapper [''latitude'', ''lat''] row,
      loc_longitude = foundFloat L mapper [''longitude'', ''lon'', ''lng''] row,
      course_degrees = foundFloat L mapper [''course'', ''heading'', ''bearing''] row,
      speed_knots = foundFloat L mapper [''speed'', ''speed_knots'', ''speed(knots)''] row,
      loc_status = locationStatus L mapper row\<rparr>"

text \<open>The columns of the location row as the database stores them.\<close>

definition storedLocation :: "locationFields \<Rightarrow> locationFields" where
  "storedLocation loc =
     \<lparr>loc_latitude = sqlReal (loc_latitude loc), loc_longitude = sqlReal (loc_longitude loc),
      course_degrees = sqlReal (course_degrees loc), speed_knots = sqlReal (speed_knots loc),
      loc_status = loc_status loc\<rparr>"

definition locationMapped :: "string \<Rightarrow> bool" where
  "locationMapped h \<longleftrightarrow>
     Contains (ToLower h) ''lat'' \<or> Contains (ToLower h) ''lon'' \<or>
     Contains (ToLower h) ''course'' \<or> Contains (ToLower h) ''speed'' \<or>
     Contains (ToLower h) ''status'' \<or> Contains (ToLower h) ''time'' \<or>
     Contains (ToLower h) ''name'' \<or> Contains (ToLower h) ''imo''"

definition processLocationFromShipInfo ::
    "golib \<Rightarrow> string list \<Rightarrow> string list \<Rightarrow> int \<Rightarrow> Time \<Rightarrow> gomap \<Rightarrow> locationFields reading list \<Rightarrow>
     locationFields loopState" where
  "processLocationFromShipInfo L headers data vesselID defaultTS mapper table =
     (let row = mkRow headers data;
          ts = rowTimestamp defaultTS (snd (FindTimestampHeader L mapper))
                 (fst (FindTimestampHeader L mapper)) row;
          loc = locationFieldsOf L mapper row;
          warns = ValidateLocationData (loc_latitude loc) (loc_longitude loc) (course_degrees loc)
                    (speed_knots loc)
      in if warns \<noteq> [] then (0, [''location data: '' @ Join warns '', ''], table)
         else if loc_latitude loc = None \<and> loc_longitude loc = None \<and> course_degrees loc = None \<and>
                 speed_knots loc = None \<and> loc_status loc = None
         then (0, [], table)
         else
           (let extraJSON = BuildExtraJSON L row (filter locationMapped headers);
                hashKeys = hashKeysOf (map_option (\<lambda>s. ''status:'' @ s) (loc_status loc)) extraJSON;
                rowHash = HashRow L vesselID ts ''location'' hashKeys
            in (1, [], insertOrIgnore vesselID ts rowHash extraJSON (storedLocation loc) table)))"

subsection \<open>Ship info: the vessel of the ingestion\<close>

definition isShipInfo :: "string \<Rightarrow> bool" where
  "isShipInfo sheet \<longleftrightarrow> Contains (ToLower sheet) ''ship'' \<and> Contains (ToLower sheet) ''info''"

definition findShipInfoSheet :: "string list \<Rightarrow> string" where
  "findShipInfoSheet sheets = (case find isShipInfo sheets of None \<Rightarrow> [] | Some sheet \<Rightarrow> sheet)"

text \<open>
  Without a usable ship-info sheet the vessel is inserted from the identifiers of the
  request. The result is the vessel id, the number of location rows, the location
  warnings and the database.
\<close>

definition vesselFromIdentifiers ::
    "string \<Rightarrow> string \<Rightarrow> db \<Rightarrow> string + int \<times> nat \<times> string list \<times> db" where
  "vesselFromIdentifiers providedIMO vesselName d =
     (if providedIMO \<noteq> [] then
        (let name = (if vesselName = [] then ''Vessel-'' @ providedIMO else vesselName)
         in case insertVessel (Some providedIMO) (Some name) None None d of
              Inl err \<Rightarrow> Inl err
            | Inr (ident, d') \<Rightarrow> Inr (ident, 0, [], d'))
      else if vesselName = [] then Inl ''vessel name is required when IMO is not provided''
      else
        (case insertVessel None (Some vesselName) None None d of
           Inl err \<Rightarrow> Inl err
         | Inr (ident, d') \<Rightarrow> Inr (ident, 0, [], d')))"

text \<open>
  The cell of a field of the ship-info row: the first position whose header is the
  found column and whose cell is there and not empty.
\<close>

definition cellOf :: "string list \<Rightarrow> string list \<Rightarrow> string \<Rightarrow> string option" where
  "cellOf headers data col =
     (case find (\<lambda>(h, cell). h = col \<and> cell \<noteq> []) (zip headers data) of
        None \<Rightarrow> None
      | Some (h, cell) \<Rightarrow> Some cell)"

definition shipField :: "golib \<Rightarrow> gomap \<Rightarrow> string list \<Rightarrow> string list \<Rightarrow> string list \<Rightarrow> string option" where
  "shipField L mapper headers data patterns =
     (if snd (FindHeader L mapper patterns)
      then cellOf headers data (fst (FindHeader L mapper patterns))
      else None)"

text \<open>The IMO of the vessel: the provided one when there is one, else the sheet's.\<close>

definition resolveIMO :: "golib \<Rightarrow> gomap \<Rightarrow> string list \<Rightarrow> string list \<Rightarrow> string \<Rightarrow> string option" where
  "resolveIMO L mapper headers data providedIMO =
     (if providedIMO \<noteq> [] then Some providedIMO
      else shipField L mapper headers data [''imo''])"

definition resolveName ::
    "golib \<Rightarrow> gomap \<Rightarrow> string list \<Rightarrow> string list \<Rightarrow> string \<Rightarrow> string option \<Rightarrow> string option" where
  "resolveName L mapper headers data vesselName imo =
     (case shipField L mapper headers data [''name'', ''vessel_name'', ''ship_name''] of
        Some n \<Rightarrow> Some n
      | None \<Rightarrow>
          if vesselName \<noteq> [] then Some vesselName
          else (case imo of Some i \<Rightarrow> Some (''Vessel-'' @ i) | None \<Rightarrow> None))"

text \<open>
  Both statements that write the vessel dereference \<^verbatim>\<open>name\<close>; when it is nil the
  program panics, which is the error \<open>Inl\<close> here. An existing vessel with the IMO is
  updated; when none was found (the id is still 0) a vessel is inserted.
\<close>

definition processShipInfo ::
    "golib \<Rightarrow> workbook \<Rightarrow> string \<Rightarrow> string \<Rightarrow> Time \<Rightarrow> db \<Rightarrow> string + int \<times> nat \<times> string list \<times> db" where
  "processShipInfo L f providedIMO vesselName uploadedAt d =
     (let shipInfoSheet = findShipInfoSheet (GetSheetList f)
      in if shipInfoSheet = [] then vesselFromIdentifiers providedIMO vesselName d
         else
           (case GetRows f shipInfoSheet of
              None \<Rightarrow> vesselFromIdentifiers providedIMO vesselName d
            | Some rows \<Rightarrow>
                if length rows < 2 then vesselFromIdentifiers providedIMO vesselName d
                else
                  (let headers = rows ! 0;
                       data = rows ! 1;
                       mapper = NewHeaderMapper headers;
                       imo = resolveIMO L mapper headers data providedIMO;
                       name = resolveName L mapper headers data vesselName imo;
                       flag = shipField L mapper headers data [''flag''];
                       vesselType = shipField L mapper headers data
                         [''type'', ''vessel_type'', ''ship_type''];
                       existing = (case imo of None \<Rightarrow> None | Some i \<Rightarrow> selectVesselByIMO d i);
                       vesselID = (case existing of None \<Rightarrow> 0 | Some existingID \<Rightarrow> existingID);
                       d1 = (case existing of
                               None \<Rightarrow> d
                             | Some existingID \<Rightarrow> updateVessel existingID name flag vesselType d)
                   in if name = None then Inl ''panic: nil pointer dereference''
                      else
                        (case (if vesselID = 0
                               then insertVessel imo name flag vesselType d1
                               else Inr (vesselID, d1)) of
                           Inl err \<Rightarrow> Inl err
                         | Inr (ident, d2) \<Rightarrow>
                             (case processLocationFromShipInfo L headers data ident uploadedAt
                                     mapper (location_readings d2) of
                                (locationCount, locationWarnings, table) \<Rightarrow>
                                  Inr (ident, locationCount, locationWarnings,
                                       d2\<lparr>location_readings := table\<rparr>))))))"

subsection \<open>The ingestion of one file\<close>

record IngestResponse =
  Status :: string
  UploadID :: "int option"
  VesselID :: "int option"
  RowsInserted :: "(string \<times> nat) list"
  Warnings :: "string list"

text \<open>
  One step of the loop over the sheets: the first matching case of the \<^verbatim>\<open>switch\<close>
  runs its processor on its table, records the count under the stream's name and
  appends the warnings; a sheet that matches no case is passed over.
\<close>

definition processSheet ::
    "golib \<Rightarrow> workbook \<Rightarrow> int \<Rightarrow> Time \<Rightarrow> string \<Rightarrow> (string \<times> nat) list \<times> string list \<times> db \<Rightarrow>
     (string \<times> nat) list \<times> string list \<times> db" where
  "processSheet L f vesselID uploadedAt sheetName =
     (\<lambda>(rowsInserted, warnings, d).
        if Contains (ToLower sheetName) ''engine'' then
          (case processEngineSheet L f sheetName vesselID uploadedAt (engine_readings d) of
             (n, warns, table) \<Rightarrow>
               (mapPut ''engines'' n rowsInserted, warnings @ warns, d\<lparr>engine_readings := table\<rparr>))
        else if Contains (ToLower sheetName) ''fuel'' then
          (case processFuelSheet L f sheetName vesselID uploadedAt (fuel_tank_readings d) of
             (n, warns, table) \<Rightarrow>
               (mapPut ''fuel'' n rowsInserted, warnings @ warns, d\<lparr>fuel_tank_readings := table\<rparr>))
        else if Contains (ToLower sheetName) ''generator'' then
          (case processGeneratorSheet L f sheetName vesselID uploadedAt (generator_readings d) of
             (n, warns, table) \<Rightarrow>
               (mapPut ''generators'' n rowsInserted, warnings @ warns,
                d\<lparr>generator_readings := table\<rparr>))
        else if Contains (ToLower sheetName) ''cctv'' then
          (case processCCTVSheet L f sheetName vesselID uploadedAt (cctv_status_readings d) of
             (n, warns, table) \<Rightarrow>
               (mapPut ''cctv'' n rowsInserted, warnings @ warns, d\<lparr>cctv_status_readings := table\<rparr>))
        else if Contains (ToLower sheetName) ''impact'' \<or> Contains (ToLower sheetName) ''vibration'' then
          (case processImpactSheet L f sheetName vesselID uploadedAt (impact_vibration_readings d) of
             (n, warns, table) \<Rightarrow>
               (mapPut ''impact'' n rowsInserted, warnings @ warns,
                d\<lparr>impact_vibration_readings := table\<rparr>))
        else (rowsInserted, warnings, d))"

text \<open>
  \<^verbatim>\<open>INSERT OR REPLACE INTO vessel_stream_latest\<close> for every stream with a positive count.
  The streams are distinct keys, so the order in which the map of counts is visited does
  not matter.
\<close>

definition updateStreamLatest :: "int \<Rightarrow> (string \<times> nat) list \<Rightarrow> Time \<Rightarrow> db \<Rightarrow> db" where
  "updateStreamLatest vesselID rowsInserted ts d =
     fold (\<lambda>(stream, n) d'.
             if n > 0
             then d'\<lparr>vessel_stream_latest := (vessel_stream_latest d')((vesselID, stream) \<mapsto> ts)\<rparr>
             else d')
       rowsInserted d"

text \<open>
  \<open>now\<close> is what \<^verbatim>\<open>time.Now()\<close> returns; \<open>periodStart\<close> is the optional pointer. The
  statement that inserted the upload row is commented out in the source, and the upload
  id of the response is the constant 1. An error leaves the database as it was.
\<close>

definition ProcessFile ::
    "golib \<Rightarrow> Time \<Rightarrow> string \<Rightarrow> string \<Rightarrow> string \<Rightarrow> string \<Rightarrow> Time option \<Rightarrow> db \<Rightarrow>
     string + IngestResponse \<times> db" where
  "ProcessFile L now fileData filename imo vesselName periodStart d =
     (let fileHash = SHA256Hex L fileData
      in case selectUploadByHash d fileHash of
           Some existingUploadID \<Rightarrow>
             Inr (\<lparr>Status = ''already_ingested'', UploadID = Some existingUploadID,
                   VesselID = None, RowsInserted = [], Warnings = []\<rparr>, d)
         | None \<Rightarrow>
             (case OpenReader L fileData of
                None \<Rightarrow> Inl ''error opening XLSX''
              | Some f \<Rightarrow>
                  (let uploadedAt = (case periodStart of None \<Rightarrow> now | Some p \<Rightarrow> p)
                   in case processShipInfo L f imo vesselName uploadedAt d of
                        Inl err \<Rightarrow> Inl (''error processing ship info: '' @ err)
                      | Inr (vesselID, locationCount, locationWarnings, d1) \<Rightarrow>
                          (case fold (processSheet L f vesselID uploadedAt) (GetSheetList f)
                                  (if locationCount > 0 then [(''location'', locationCount)] else [],
                                   locationWarnings, d1) of
                             (rowsInserted, warnings, d2) \<Rightarrow>
                               Inr (\<lparr>Status = ''ingested'', UploadID = Some 1,
                                     VesselID = Some vesselID, RowsInserted = rowsInserted,
                                     Warnings = warnings\<rparr>,
                                    updateStreamLatest vesselID rowsInserted uploadedAt d2)))))"

section \<open>An environment for the examples\<close>

text \<open>
  The examples run the model on concrete inputs, for which the library parameters need
  values: the digest is the identity, JSON is written without escapes, a float is a run
  of decimal digits with an optional minus sign, or one of \<open>Inf\<close> and \<open>NaN\<close>, a map is
  visited in the order of its entries, and the only file that opens is the one whose
  bytes are \<open>''workbook''\<close>.
\<close>

definition exampleMarshal :: "(string \<times> string) list \<Rightarrow> string" where
  "exampleMarshal kvs =
     ''{'' @ Join (map (\<lambda>(k, v). [CHR 0x22] @ k @ [CHR 0x22] @ '':'' @ [CHR 0x22] @ v @ [CHR 0x22]) kvs)
              '','' @ ''}''"

definition exampleParseFloat :: "string \<Rightarrow> float64 option" where
  "exampleParseFloat s =
     (if s = ''Inf'' then Some PosInf
      else if s = ''NaN'' then Some NaN
      else if s \<noteq> [] \<and> list_all isDigit s then Some (Finite (real (digitsVal s)))
      else if s \<noteq> [] \<and> hd s = CHR ''-'' \<and> tl s \<noteq> [] \<and> list_all isDigit (tl s)
      then Some (Finite (- real (digitsVal (tl s))))
      else None)"

text \<open>
  The arithmetic of the examples: exact on finite operands (the results of the examples
  are values of \<^verbatim>\<open>float64\<close>), and IEEE 754's on the others, as far as the examples go:
  a NaN operand gives NaN, and so does infinity divided by infinity.
\<close>

fun exampleMul :: "float64 \<Rightarrow> float64 \<Rightarrow> float64" where
  "exampleMul (Finite x) (Finite y) = Finite (x * y)"
| "exampleMul NaN b = NaN"
| "exampleMul a NaN = NaN"
| "exampleMul PosInf (Finite y) = (if y > 0 then PosInf else if y < 0 then NegInf else NaN)"
| "exampleMul NegInf (Finite y) = (if y > 0 then NegInf else if y < 0 then PosInf else NaN)"
| "exampleMul (Finite x) PosInf = (if x > 0 then PosInf else if x < 0 then NegInf else NaN)"
| "exampleMul (Finite x) NegInf = (if x > 0 then NegInf else if x < 0 then PosInf else NaN)"
| "exampleMul PosInf PosInf = PosInf"
| "exampleMul NegInf NegInf = PosInf"
| "exampleMul PosInf NegInf = NegInf"
| "exampleMul NegInf PosInf = NegInf"

fun exampleDiv :: "float64 \<Rightarrow> float64 \<Rightarrow> float64" where
  "exampleDiv (Finite x) (Finite y) =
     (if y \<noteq> 0 then Finite (x / y) else if x > 0 then PosInf else if x < 0 then NegInf else NaN)"
| "exampleDiv NaN b = NaN"
| "exampleDiv a NaN = NaN"
| "exampleDiv (Finite x) b = Finite 0"
| "exampleDiv PosInf (Finite y) = (if y < 0 then NegInf else PosInf)"
| "exampleDiv NegInf (Finite y) = (if y < 0 then PosInf else NegInf)"
| "exampleDiv PosInf PosInf = NaN"
| "exampleDiv PosInf NegInf = NaN"
| "exampleDiv NegInf PosInf = NaN"
| "exampleDiv NegInf NegInf = NaN"

definition exampleWorkbook :: workbook where
  "exampleWorkbook =
     [(''Ship Info'', Some [[''IMO'', ''Name'', ''Flag''], [''1111111'', ''Ever Given'', ''PA'']]),
      (''Fuel Tanks'', Some [[''Tank'', ''Capacity(m3)''], [''Tank 1'', ''10'']])]"

definition exampleLib :: golib where
  "exampleLib =
     \<lparr>Sum256 = (\<lambda>bytes. bytes),
      jsonMarshal = exampleMarshal,
      strconvParseFloat = exampleParseFloat,
      f64mul = exampleMul,
      f64div = exampleDiv,
      mapOrder = (\<lambda>m. m),
      OpenReader = (\<lambda>bytes. if bytes = ''workbook'' then Some exampleWorkbook else None)\<rparr>"

definition emptyDB :: db where
  "emptyDB =
     \<lparr>vessels = [], uploads = [], engine_readings = [], fuel_tank_readings = [],
      generator_readings = [], cctv_status_readings = [], impact_vibration_readings = [],
      location_readings = [], vessel_stream_latest = (\<lambda>k. None)\<rparr>"

definition exampleTime :: Time where
  "exampleTime =
     \<lparr>Year = 2025, Month = 8, Day = 8, Hour = 10, Minute = 0, Second = 0, Nanosecond = 0,
      Offset = 0\<rparr>"

section \<open>Properties of the validators\<close>

text \<open>
  Claim C8. The range boundaries are inclusive. The fuel-level warning is produced exactly
  for levels strictly below 0 or strictly above 100, whatever the other arguments are, and
  the frequency warning exactly for frequencies strictly below 45 or strictly above 70;
  so the boundary values 0, 100, 45 and 70 on their own give an empty warning list. This
  is stated for the finite values first and then for every \<^verbatim>\<open>float64\<close>, in the comparison
  of \<^verbatim>\<open>float64\<close> (an infinity gets the warning, NaN does not).
\<close>

theorem validator_boundaries_inclusive:
  "(''invalid fuel level percentage'' \<in> set (ValidateFuelData (Some (Finite l)) volume temp)
      \<longleftrightarrow> l < 0 \<or> 100 < l)
   \<and> (''frequency out of range (45-70 Hz)''
        \<in> set (ValidateGeneratorData load voltage (Some (Finite f)) fuelRate) \<longleftrightarrow> f < 45 \<or> 70 < f)
   \<and> ValidateFuelData (Some (Finite 0)) None None = []
   \<and> ValidateFuelData (Some (Finite 100)) None None = []
   \<and> ValidateGeneratorData None None (Some (Finite 45)) None = []
   \<and> ValidateGeneratorData None None (Some (Finite 70)) None = []
   \<and> (''invalid fuel level percentage'' \<in> set (ValidateFuelData (Some x) volume temp)
        \<longleftrightarrow> f64lt x (Finite 0) \<or> f64lt (Finite 100) x)
   \<and> (''frequency out of range (45-70 Hz)''
        \<in> set (ValidateGeneratorData load voltage (Some y) fuelRate)
        \<longleftrightarrow> f64lt y (Finite 45) \<or> f64lt (Finite 70) y)"
  by (simp add: ValidateFuelData_def ValidateGeneratorData_def)

section \<open>The row fingerprint\<close>

lemma sort_mset_cong: "mset (xs :: string list) = mset ys \<Longrightarrow> sort xs = sort ys"
  by (rule properties_for_sort) simp_all

text \<open>
  Claim C3. \<open>HashRow\<close> is a function of its arguments, so two calls with the same
  vessel id, timestamp, stream name and key list give the same output; and the output
  does not depend on the order of the keys: two key lists that are permutations of each
  other (that have the same multiset of keys) give the same fingerprint.
\<close>

theorem HashRow_permutation_invariant:
  "mset keys' = mset keys \<Longrightarrow>
     HashRow L vesselID ts stream keys' = HashRow L vesselID ts stream keys"
  using sort_mset_cong [of keys' keys] by (simp add: HashRow_def)

text \<open>The theorem at two orders of the same two keys, for every library and timestamp.\<close>

theorem HashRow_permutation_witness:
  "\<forall>L ts. mset [''rpm:1500'', ''engine_no:1''] = mset [''engine_no:1'', ''rpm:1500''] \<and>
     HashRow L 123 ts ''engines'' [''rpm:1500'', ''engine_no:1''] =
     HashRow L 123 ts ''engines'' [''engine_no:1'', ''rpm:1500'']"
proof (intro allI)
  fix L ts
  have h: "mset [''rpm:1500'', ''engine_no:1''] = mset [''engine_no:1'', ''rpm:1500'']"
    by simp
  show "mset [''rpm:1500'', ''engine_no:1''] = mset [''engine_no:1'', ''rpm:1500''] \<and>
     HashRow L 123 ts ''engines'' [''rpm:1500'', ''engine_no:1''] =
     HashRow L 123 ts ''engines'' [''engine_no:1'', ''rpm:1500'']"
    using h HashRow_permutation_invariant [OF h, of L 123 ts "''engines''"] by blast
qed

section \<open>Fuel rows\<close>

lemma insertOrIgnore_new:
  "r \<in> set (insertOrIgnore vesselID ts rowHash extraJSON p table) \<Longrightarrow> r \<notin> set table \<Longrightarrow>
     payload r = p \<and> reading_vessel_id r = vesselID \<and> reading_ts r = ts"
  by (auto simp: insertOrIgnore_def split: if_splits)

text \<open>The columns of the row that the loop body of the fuel sheet adds to the table.\<close>

lemma fuelRow_new_payload:
  assumes "fuelRow L vesselID defaultTS headers hasTS tsCol tankNoCol capCol curCol tempCol
             (i, cells) (inserted, warnings, table) = (inserted', warnings', table')"
    and "r \<in> set table'" and "r \<notin> set table"
  shows "payload r =
      \<lparr>tank_no = numberOf tankNoCol (mkRow headers cells),
       level_percent = sqlReal (levelPercentOf L (curLitersOf L capCol curCol (mkRow headers cells))
                        (capLitersOf L capCol (mkRow headers cells))),
       volume_liters = sqlReal (curLitersOf L capCol curCol (mkRow headers cells)),
       fuel_temp_c = sqlReal (floatOf L tempCol (mkRow headers cells))\<rparr>"
  using assms
  by (auto simp: fuelRow_def Let_def split: if_splits dest!: insertOrIgnore_new)

text \<open>
  Claim C6, as the code has it. The level percent of a fuel row is derived from the
  current volume and the capacity of the row, both in liters: the value handed to the
  insert is \<open>current / capacity * 100\<close> in \<^verbatim>\<open>float64\<close> arithmetic when both are present
  and the capacity is greater than zero, and nil otherwise. The stored level percent of
  a stored row \<open>r\<close> is that value, except that a NaN result is stored as NULL.
\<close>

theorem fuel_level_percent_derived:
  assumes "fuelRow L vesselID defaultTS headers hasTS tsCol tankNoCol capCol curCol tempCol
             (i, cells) (inserted, warnings, table) = (inserted', warnings', table')"
    and "r \<in> set table'" and "r \<notin> set table"
  shows "level_percent (payload r) =
           (case curLitersOf L capCol curCol (mkRow headers cells) of
              None \<Rightarrow> None
            | Some cur \<Rightarrow>
                (case capLitersOf L capCol (mkRow headers cells) of
                   None \<Rightarrow> None
                 | Some cap \<Rightarrow>
                     if f64lt (Finite 0) cap \<and> f64mul L (f64div L cur cap) (Finite 100) \<noteq> NaN
                     then Some (f64mul L (f64div L cur cap) (Finite 100))
                     else None))"
  by (simp add: fuelRow_new_payload [OF assms] levelPercentOf_def sqlReal_def split: option.splits)

text \<open>A tank of 200 liters holding 50 liters is stored with level 25.\<close>

theorem fuel_level_percent_example:
  "\<exists>r. snd (snd (fuelRow exampleLib 1 exampleTime [''Tank'', ''Capacity'', ''Current''] False []
           ''Tank'' ''Capacity'' ''Current'' [] (1, [''Tank 1'', ''200'', ''50'']) (0, [], []))) = [r]
       \<and> level_percent (payload r) = Some (Finite 25)"
proof -
  define st where "st = fuelRow exampleLib 1 exampleTime [''Tank'', ''Capacity'', ''Current'']
    False [] ''Tank'' ''Capacity'' ''Current'' [] (1, [''Tank 1'', ''200'', ''50'']) (0, [], [])"
  have "length (snd (snd st)) = 1"
    unfolding st_def by code_simp
  then obtain r where r: "snd (snd st) = [r]"
    by (cases "snd (snd st)") auto
  have run: "fuelRow exampleLib 1 exampleTime [''Tank'', ''Capacity'', ''Current'']
    False [] ''Tank'' ''Capacity'' ''Current'' [] (1, [''Tank 1'', ''200'', ''50'']) (0, [], [])
    = (fst st, fst (snd st), snd (snd st))"
    by (simp add: st_def)
  have v: "(case curLitersOf exampleLib ''Capacity'' ''Current''
                  (mkRow [''Tank'', ''Capacity'', ''Current''] [''Tank 1'', ''200'', ''50'']) of
              None \<Rightarrow> None
            | Some cur \<Rightarrow>
                (case capLitersOf exampleLib ''Capacity''
                        (mkRow [''Tank'', ''Capacity'', ''Current''] [''Tank 1'', ''200'', ''50'']) of
                   None \<Rightarrow> None
                 | Some cap \<Rightarrow>
                     if f64lt (Finite 0) cap \<and>
                        f64mul exampleLib (f64div exampleLib cur cap) (Finite 100) \<noteq> NaN
                     then Some (f64mul exampleLib (f64div exampleLib cur cap) (Finite 100))
                     else None)) = Some (Finite 25)"
    by code_simp
  have "level_percent (payload r) = Some (Finite 25)"
    using fuel_level_percent_derived [OF run, of r] v by (simp add: r)
  with r show ?thesis
    unfolding st_def by blast
qed

text \<open>
  The claim as the specification words it (the level is computed whenever both volumes
  are present and the capacity is positive) fails on a sheet with the columns \<open>Tank\<close> and
  \<open>Capacity\<close> and the capacity cell \<open>Inf\<close>, which \<^verbatim>\<open>strconv.ParseFloat\<close> reads as
  infinity: capacity and current volume are both infinity, the capacity is greater than
  zero, the row is stored, and its level percent, infinity divided by infinity, is NULL.
\<close>

theorem fuel_level_nan_stored_null:
  "capLitersOf exampleLib ''Capacity'' (mkRow [''Tank'', ''Capacity''] [''1'', ''Inf'']) = Some PosInf
   \<and> curLitersOf exampleLib ''Capacity'' [] (mkRow [''Tank'', ''Capacity''] [''1'', ''Inf'']) = Some PosInf
   \<and> f64lt (Finite 0) PosInf
   \<and> map (\<lambda>r. (level_percent (payload r), volume_liters (payload r)))
        (snd (snd (processFuelSheet exampleLib
           [(''Fuel Tanks'', Some [[''Tank'', ''Capacity''], [''1'', ''Inf'']])]
           ''Fuel Tanks'' 1 exampleTime []))) = [(None, Some PosInf)]"
  by code_simp







section \<open>Rows with validation warnings\<close>

text \<open>
  Claim C2, as the code has it. A location row whose validator returns a non-empty
  warning list is not inserted: the count is 0, the table is unchanged, and the warnings
  are returned as one \<open>location data: ...\<close> message. Engine, fuel and generator rows
  with warnings are skipped in the same way, with one \<open>row n ...\<close> message each. Only
  engine, fuel, generator and location rows are skipped on validation warnings: the
  loops over the cctv and the impact sheet have no validator, every row of theirs goes
  to the insert (the count grows by one) and they add no warning.
\<close>

theorem validation_warnings_skip_row:
  "(ValidateLocationData
       (loc_latitude (locationFieldsOf L mapper (mkRow headers data)))
       (loc_longitude (locationFieldsOf L mapper (mkRow headers data)))
       (course_degrees (locationFieldsOf L mapper (mkRow headers data)))
       (speed_knots (locationFieldsOf L mapper (mkRow headers data))) = w # ws
     \<longrightarrow> processLocationFromShipInfo L headers data vesselID defaultTS mapper locTable =
           (0, [''location data: '' @ Join (w # ws) '', ''], locTable))
   \<and> (ValidateEngineData (floatOf L rpmCol (mkRow headers cells))
         (floatOf L tempCol (mkRow headers cells))
         (floatOf L pressureCol (mkRow headers cells)) = w # ws
     \<longrightarrow> engineRow L vesselID defaultTS headers hasTS tsCol engineNoCol rpmCol tempCol pressureCol
           alarmsCol (i, cells) (inserted, warnings, engTable) =
           (inserted, warnings @ [''row '' @ formatInt (int i + 1) @ '' engines: '' @ Join (w # ws) '', ''],
            engTable))
   \<and> (ValidateFuelData
         (levelPercentOf L (curLitersOf L capCol curCol (mkRow headers cells))
            (capLitersOf L capCol (mkRow headers cells)))
         (curLitersOf L capCol curCol (mkRow headers cells))
         (floatOf L tempCol (mkRow headers cells)) = w # ws
     \<longrightarrow> fuelRow L vesselID defaultTS headers hasTS tsCol tankNoCol capCol curCol tempCol
           (i, cells) (inserted, warnings, fuelTable) =
           (inserted, warnings @ [''row '' @ formatInt (int i + 1) @ '' fuel: '' @ Join (w # ws) '', ''],
            fuelTable))
   \<and> (ValidateGeneratorData (floatOf L loadCol (mkRow headers cells))
         (floatOf L voltageCol (mkRow headers cells))
         (floatOf L freqCol (mkRow headers cells))
         (floatOf L fuelRateCol (mkRow headers cells)) = w # ws
     \<longrightarrow> generatorRow L vesselID defaultTS headers hasTS tsCol genNoCol loadCol voltageCol freqCol
           fuelRateCol (i, cells) (inserted, warnings, genTable) =
           (inserted, warnings @ [''row '' @ formatInt (int i + 1) @ '' generators: '' @ Join (w # ws) '', ''],
            genTable))
   \<and> fst (cctvRow L vesselID defaultTS headers hasTS tsCol camIDCol statusCol uptimeCol
            (i, cells) (inserted, warnings, cctvTable)) = inserted + 1
   \<and> fst (snd (cctvRow L vesselID defaultTS headers hasTS tsCol camIDCol statusCol uptimeCol
            (i, cells) (inserted, warnings, cctvTable))) = warnings
   \<and> fst (impactRow L vesselID defaultTS headers hasTS tsCol sensorIDCol accelCol shockCol notesCol
            (i, cells) (inserted, warnings, impactTable)) = inserted + 1
   \<and> fst (snd (impactRow L vesselID defaultTS headers hasTS tsCol sensorIDCol accelCol shockCol
            notesCol (i, cells) (inserted, warnings, impactTable))) = warnings"
  by (simp add: processLocationFromShipInfo_def engineRow_def fuelRow_def generatorRow_def
      cctvRow_def impactRow_def Let_def)

text \<open>
  The theorem at a ship-info row with latitude 95, an engine row with rpm -5, a fuel row
  with 300 liters in a tank of 200, and a generator row with 80 Hz: none is inserted.
  A cctv row with an uptime of -5 is.
\<close>

theorem validation_warnings_skip_row_example:
  "processLocationFromShipInfo exampleLib [''Latitude'', ''Longitude''] [''95'', ''10''] 1
       exampleTime (NewHeaderMapper [''Latitude'', ''Longitude'']) [] =
     (0, [''location data: latitude out of range (-90 to 90)''], [])
   \<and> engineRow exampleLib 1 exampleTime [''Engine'', ''RPM''] False [] ''Engine'' ''RPM'' [] [] []
       (1, [''1'', ''-5'']) (0, [], []) =
     (0, [''row 2 engines: negative rpm''], [])
   \<and> fuelRow exampleLib 1 exampleTime [''Tank'', ''Capacity'', ''Current''] False [] ''Tank''
       ''Capacity'' ''Current'' [] (1, [''1'', ''200'', ''300'']) (0, [], []) =
     (0, [''row 2 fuel: invalid fuel level percentage''], [])
   \<and> generatorRow exampleLib 1 exampleTime [''Gen'', ''Frequency''] False [] ''Gen'' [] []
       ''Frequency'' [] (1, [''1'', ''80'']) (0, [], []) =
     (0, [''row 2 generators: frequency out of range (45-70 Hz)''], [])
   \<and> fst (cctvRow exampleLib 1 exampleTime [''Camera'', ''Uptime''] False [] ''Camera'' [] ''Uptime''
          (1, [''1'', ''-5'']) (0, [], [])) = 1"
proof -
  have loc: "ValidateLocationData
       (loc_latitude (locationFieldsOf exampleLib (NewHeaderMapper [''Latitude'', ''Longitude''])
          (mkRow [''Latitude'', ''Longitude''] [''95'', ''10''])))
       (loc_longitude (locationFieldsOf exampleLib (NewHeaderMapper [''Latitude'', ''Longitude''])
          (mkRow [''Latitude'', ''Longitude''] [''95'', ''10''])))
       (course_degrees (locationFieldsOf exampleLib (NewHeaderMapper [''Latitude'', ''Longitude''])
          (mkRow [''Latitude'', ''Longitude''] [''95'', ''10''])))
       (speed_knots (locationFieldsOf exampleLib (NewHeaderMapper [''Latitude'', ''Longitude''])
          (mkRow [''Latitude'', ''Longitude''] [''95'', ''10''])))
     = [''latitude out of range (-90 to 90)'']"
    by code_simp
  have eng: "ValidateEngineData (floatOf exampleLib ''RPM'' (mkRow [''Engine'', ''RPM''] [''1'', ''-5'']))
       (floatOf exampleLib [] (mkRow [''Engine'', ''RPM''] [''1'', ''-5'']))
       (floatOf exampleLib [] (mkRow [''Engine'', ''RPM''] [''1'', ''-5''])) = [''negative rpm'']"
    by code_simp
  have fuel: "ValidateFuelData
       (levelPercentOf exampleLib
          (curLitersOf exampleLib ''Capacity'' ''Current''
             (mkRow [''Tank'', ''Capacity'', ''Current''] [''1'', ''200'', ''300'']))
          (capLitersOf exampleLib ''Capacity''
             (mkRow [''Tank'', ''Capacity'', ''Current''] [''1'', ''200'', ''300''])))
       (curLitersOf exampleLib ''Capacity'' ''Current''
          (mkRow [''Tank'', ''Capacity'', ''Current''] [''1'', ''200'', ''300'']))
       (floatOf exampleLib [] (mkRow [''Tank'', ''Capacity'', ''Current''] [''1'', ''200'', ''300'']))
     = [''invalid fuel level percentage'']"
    by code_simp
  have gen: "ValidateGeneratorData
       (floatOf exampleLib [] (mkRow [''Gen'', ''Frequency''] [''1'', ''80'']))
       (floatOf exampleLib [] (mkRow [''Gen'', ''Frequency''] [''1'', ''80'']))
       (floatOf exampleLib ''Frequency'' (mkRow [''Gen'', ''Frequency''] [''1'', ''80'']))
       (floatOf exampleLib [] (mkRow [''Gen'', ''Frequency''] [''1'', ''80'']))
     = [''frequency out of range (45-70 Hz)'']"
    by code_simp
  have two: "''row '' @ formatInt (int 1 + 1) = ''row 2''"
    by code_simp
  note skips = validation_warnings_skip_row
  have "processLocationFromShipInfo exampleLib [''Latitude'', ''Longitude''] [''95'', ''10''] 1
       exampleTime (NewHeaderMapper [''Latitude'', ''Longitude'']) [] =
     (0, [''location data: '' @ Join [''latitude out of range (-90 to 90)''] '', ''], [])"
    by (rule mp [OF conjunct1 [OF skips] loc])
  moreover have "engineRow exampleLib 1 exampleTime [''Engine'', ''RPM''] False [] ''Engine'' ''RPM''
       [] [] [] (1, [''1'', ''-5'']) (0, [], []) =
     (0, [] @ [''row '' @ formatInt (int 1 + 1) @ '' engines: '' @ Join [''negative rpm''] '', ''], [])"
    by (rule mp [OF conjunct1 [OF conjunct2 [OF skips]] eng])
  moreover have "fuelRow exampleLib 1 exampleTime [''Tank'', ''Capacity'', ''Current''] False []
       ''Tank'' ''Capacity'' ''Current'' [] (1, [''1'', ''200'', ''300'']) (0, [], []) =
     (0, [] @ [''row '' @ formatInt (int 1 + 1) @ '' fuel: '' @
               Join [''invalid fuel level percentage''] '', ''], [])"
    by (rule mp [OF conjunct1 [OF conjunct2 [OF conjunct2 [OF skips]]] fuel])
  moreover have "generatorRow exampleLib 1 exampleTime [''Gen'', ''Frequency''] False [] ''Gen'' [] []
       ''Frequency'' [] (1, [''1'', ''80'']) (0, [], []) =
     (0, [] @ [''row '' @ formatInt (int 1 + 1) @ '' generators: '' @
               Join [''frequency out of range (45-70 Hz)''] '', ''], [])"
    by (rule mp [OF conjunct1 [OF conjunct2 [OF conjunct2 [OF conjunct2 [OF skips]]]] gen])
  moreover have "fst (cctvRow exampleLib 1 exampleTime [''Camera'', ''Uptime''] False [] ''Camera''
      [] ''Uptime'' (1, [''1'', ''-5'']) (0, [], [])) = 0 + 1"
    by (rule conjunct1 [OF conjunct2 [OF conjunct2 [OF conjunct2 [OF conjunct2 [OF skips]]]]])
  ultimately show ?thesis
    using two by simp
qed

text \<open>
  The claim as the specification words it (a location row with warnings is still
  inserted) fails on that ship-info row: the validator warns, the count is 0 and
  the table stays empty.
\<close>

theorem location_warning_row_not_inserted:
  "ValidateLocationData
     (loc_latitude (locationFieldsOf exampleLib (NewHeaderMapper [''Latitude'', ''Longitude''])
        (mkRow [''Latitude'', ''Longitude''] [''95'', ''10''])))
     (loc_longitude (locationFieldsOf exampleLib (NewHeaderMapper [''Latitude'', ''Longitude''])
        (mkRow [''Latitude'', ''Longitude''] [''95'', ''10''])))
     (course_degrees (locationFieldsOf exampleLib (NewHeaderMapper [''Latitude'', ''Longitude''])
        (mkRow [''Latitude'', ''Longitude''] [''95'', ''10''])))
     (speed_knots (locationFieldsOf exampleLib (NewHeaderMapper [''Latitude'', ''Longitude''])
        (mkRow [''Latitude'', ''Longitude''] [''95'', ''10'']))) =
     [''latitude out of range (-90 to 90)'']
   \<and> processLocationFromShipInfo exampleLib [''Latitude'', ''Longitude''] [''95'', ''10''] 1 exampleTime
       (NewHeaderMapper [''Latitude'', ''Longitude'']) [] =
     (0, [''location data: latitude out of range (-90 to 90)''], [])"
  by code_simp

section \<open>Rows in which no field could be parsed\<close>

text \<open>
  Claim C10. Every validator returns the empty warning list when all of its arguments are
  absent (nil). So a row in which no validated field could be parsed is never skipped by
  validation: an engine, fuel or generator row goes to the insert (the count grows by
  one and no warning is added), and the location row gets no warning and is inserted
  whenever it has a status (without a status and without any parsed field it is passed
  over as a row with no location data, which is not a validation warning).
\<close>

theorem validators_vacuous_on_nil:
  "ValidateEngineData None None None = []
   \<and> ValidateFuelData None None None = []
   \<and> ValidateGeneratorData None None None None = []
   \<and> ValidateLocationData None None None None = []
   \<and> (floatOf L rpmCol (mkRow headers cells) = None \<and>
        floatOf L tempCol (mkRow headers cells) = None \<and>
        floatOf L pressureCol (mkRow headers cells) = None
      \<longrightarrow> fst (engineRow L vesselID defaultTS headers hasTS tsCol engineNoCol rpmCol tempCol
                 pressureCol alarmsCol (i, cells) (inserted, warnings, engTable)) = inserted + 1 \<and>
          fst (snd (engineRow L vesselID defaultTS headers hasTS tsCol engineNoCol rpmCol tempCol
                 pressureCol alarmsCol (i, cells) (inserted, warnings, engTable))) = warnings)
   \<and> (capLitersOf L capCol (mkRow headers cells) = None \<and>
        curLitersOf L capCol curCol (mkRow headers cells) = None \<and>
        floatOf L tempCol (mkRow headers cells) = None
      \<longrightarrow> fst (fuelRow L vesselID defaultTS headers hasTS tsCol tankNoCol capCol curCol tempCol
                 (i, cells) (inserted, warnings, fuelTable)) = inserted + 1 \<and>
          fst (snd (fuelRow L vesselID defaultTS headers hasTS tsCol tankNoCol capCol curCol tempCol
                 (i, cells) (inserted, warnings, fuelTable))) = warnings)
   \<and> (floatOf L loadCol (mkRow headers cells) = None \<and>
        floatOf L voltageCol (mkRow headers cells) = None \<and>
        floatOf L freqCol (mkRow headers cells) = None \<and>
        floatOf L fuelRateCol (mkRow headers cells) = None
      \<longrightarrow> fst (generatorRow L vesselID defaultTS headers hasTS tsCol genNoCol loadCol voltageCol
                 freqCol fuelRateCol (i, cells) (inserted, warnings, genTable)) = inserted + 1 \<and>
          fst (snd (generatorRow L vesselID defaultTS headers hasTS tsCol genNoCol loadCol voltageCol
                 freqCol fuelRateCol (i, cells) (inserted, warnings, genTable))) = warnings)
   \<and> (loc_latitude (locationFieldsOf L mapper (mkRow headers data)) = None \<and>
        loc_longitude (locationFieldsOf L mapper (mkRow headers data)) = None \<and>
        course_degrees (locationFieldsOf L mapper (mkRow headers data)) = None \<and>
        speed_knots (locationFieldsOf L mapper (mkRow headers data)) = None
      \<longrightarrow> fst (snd (processLocationFromShipInfo L headers data vesselID defaultTS mapper
                 locTable)) = [] \<and>
          fst (processLocationFromShipInfo L headers data vesselID defaultTS mapper locTable) =
            (if loc_status (locationFieldsOf L mapper (mkRow headers data)) = None then 0 else 1))"
  by (simp add: ValidateEngineData_def ValidateFuelData_def ValidateGeneratorData_def
      ValidateLocationData_def engineRow_def fuelRow_def generatorRow_def
      processLocationFromShipInfo_def levelPercentOf_def Let_def)

text \<open>
  The theorem at an engine row whose rpm cell is \<open>abc\<close>, a fuel row and a generator row
  with empty cells, and a ship-info row with a status and an unreadable latitude: each is
  counted as inserted, with no warning.
\<close>

theorem validators_vacuous_on_nil_example:
  "fst (engineRow exampleLib 1 exampleTime [''Engine'', ''RPM''] False [] ''Engine'' ''RPM'' [] [] []
          (1, [''1'', ''abc'']) (0, [], [])) = 1
   \<and> fst (snd (engineRow exampleLib 1 exampleTime [''Engine'', ''RPM''] False [] ''Engine'' ''RPM'' []
          [] [] (1, [''1'', ''abc'']) (0, [], []))) = []
   \<and> fst (fuelRow exampleLib 1 exampleTime [''Tank'', ''Capacity''] False [] ''Tank'' ''Capacity'' [] []
          (1, [''1'', []]) (0, [], [])) = 1
   \<and> fst (generatorRow exampleLib 1 exampleTime [''Gen'', ''Frequency''] False [] ''Gen'' [] []
          ''Frequency'' [] (1, [''1'', []]) (0, [], [])) = 1
   \<and> fst (processLocationFromShipInfo exampleLib [''Latitude'', ''Status''] [''north'', ''moored''] 1
          exampleTime (NewHeaderMapper [''Latitude'', ''Status'']) []) = 1
   \<and> fst (snd (processLocationFromShipInfo exampleLib [''Latitude'', ''Status'']
          [''north'', ''moored''] 1 exampleTime (NewHeaderMapper [''Latitude'', ''Status'']) [])) = []"
proof -
  note nil = validators_vacuous_on_nil
  have eng: "floatOf exampleLib ''RPM'' (mkRow [''Engine'', ''RPM''] [''1'', ''abc'']) = None \<and>
      floatOf exampleLib [] (mkRow [''Engine'', ''RPM''] [''1'', ''abc'']) = None \<and>
      floatOf exampleLib [] (mkRow [''Engine'', ''RPM''] [''1'', ''abc'']) = None"
    by code_simp
  have fuel: "capLitersOf exampleLib ''Capacity'' (mkRow [''Tank'', ''Capacity''] [''1'', []]) = None \<and>
      curLitersOf exampleLib ''Capacity'' [] (mkRow [''Tank'', ''Capacity''] [''1'', []]) = None \<and>
      floatOf exampleLib [] (mkRow [''Tank'', ''Capacity''] [''1'', []]) = None"
    by code_simp
  have gen: "floatOf exampleLib [] (mkRow [''Gen'', ''Frequency''] [''1'', []]) = None \<and>
      floatOf exampleLib [] (mkRow [''Gen'', ''Frequency''] [''1'', []]) = None \<and>
      floatOf exampleLib ''Frequency'' (mkRow [''Gen'', ''Frequency''] [''1'', []]) = None \<and>
      floatOf exampleLib [] (mkRow [''Gen'', ''Frequency''] [''1'', []]) = None"
    by code_simp
  have loc: "loc_latitude (locationFieldsOf exampleLib (NewHeaderMapper [''Latitude'', ''Status''])
        (mkRow [''Latitude'', ''Status''] [''north'', ''moored''])) = None \<and>
      loc_longitude (locationFieldsOf exampleLib (NewHeaderMapper [''Latitude'', ''Status''])
        (mkRow [''Latitude'', ''Status''] [''north'', ''moored''])) = None \<and>
      course_degrees (locationFieldsOf exampleLib (NewHeaderMapper [''Latitude'', ''Status''])
        (mkRow [''Latitude'', ''Status''] [''north'', ''moored''])) = None \<and>
      speed_knots (locationFieldsOf exampleLib (NewHeaderMapper [''Latitude'', ''Status''])
        (mkRow [''Latitude'', ''Status''] [''north'', ''moored''])) = None"
    by code_simp
  have status: "loc_status (locationFieldsOf exampleLib (NewHeaderMapper [''Latitude'', ''Status''])
        (mkRow [''Latitude'', ''Status''] [''north'', ''moored''])) = Some ''moored''"
    by code_simp
  have c5: "\<And>A B C D E F. A \<and> B \<and> C \<and> D \<and> E \<and> F \<Longrightarrow> E"
    and c6: "\<And>A B C D E F G. A \<and> B \<and> C \<and> D \<and> E \<and> F \<and> G \<Longrightarrow> F"
    and c7: "\<And>A B C D E F G H. A \<and> B \<and> C \<and> D \<and> E \<and> F \<and> G \<and> H \<Longrightarrow> G"
    and c8: "\<And>A B C D E F G H. A \<and> B \<and> C \<and> D \<and> E \<and> F \<and> G \<and> H \<Longrightarrow> H"
    by blast+
  from mp [OF c5 [OF nil] eng, of 1 exampleTime False "[]" "''Engine''" "[]" 1 0 "[]" "[]"]
       mp [OF c6 [OF nil] fuel, of 1 exampleTime False "[]" "''Tank''" 1 0 "[]" "[]"]
       mp [OF c7 [OF nil] gen, of 1 exampleTime False "[]" "''Gen''" 1 0 "[]" "[]"]
       mp [OF c8 [OF nil] loc, of 1 exampleTime "[]"] status
  show ?thesis
    by simp
qed

section \<open>The vessel of an ingestion\<close>

lemma find_Some_in: "find P xs = Some x \<Longrightarrow> x \<in> set xs \<and> P x"
  by (induction xs) (auto split: if_splits)

lemma selectVesselByIMO_Some:
  "selectVesselByIMO d imo = Some ident \<Longrightarrow>
     \<exists>v \<in> set (vessels d). vessel_id v = ident \<and> vessel_imo v = Some imo"
  by (auto simp: selectVesselByIMO_def split: option.splits dest!: find_Some_in)

lemma selectVesselByIMO_None:
  "selectVesselByIMO d imo = None \<Longrightarrow> \<not> list_ex (\<lambda>v. vessel_imo v = Some imo) (vessels d)"
  by (auto simp: selectVesselByIMO_def list_ex_iff find_None_iff split: option.splits)

lemma updateVessel_keeps:
  "v \<in> set (vessels d) \<Longrightarrow> vessel_id v = ident \<Longrightarrow> vessel_imo v = imo \<Longrightarrow>
     \<exists>v' \<in> set (vessels (updateVessel ident name flag vtype d)).
        vessel_id v' = ident \<and> vessel_imo v' = imo"
  by (rule bexI [where x = "v\<lparr>vessel_name := name, vessel_flag := flag, vessel_type := vtype\<rparr>"])
    (auto simp: updateVessel_def intro!: image_eqI [where x = v])

lemma insertVessel_Inr:
  "insertVessel imo name flag vtype d = Inr (ident, d') \<Longrightarrow>
     \<exists>v \<in> set (vessels d'). vessel_id v = ident \<and> vessel_imo v = imo"
  by (auto simp: insertVessel_def Let_def split: if_splits)

lemma insertVessel_fresh:
  "\<not> list_ex (\<lambda>v. vessel_imo v = imo) (vessels d) \<Longrightarrow>
     \<exists>ident d'. insertVessel imo name flag vtype d = Inr (ident, d')"
  by (simp add: insertVessel_def Let_def)

lemma processShipInfo_with_sheet:
  assumes "findShipInfoSheet (GetSheetList f) \<noteq> []"
    and "GetRows f (findShipInfoSheet (GetSheetList f)) = Some rows"
    and "2 \<le> length rows"
    and "resolveIMO L (NewHeaderMapper (rows ! 0)) (rows ! 0) (rows ! 1) providedIMO = Some imo"
    and "resolveName L (NewHeaderMapper (rows ! 0)) (rows ! 0) (rows ! 1) vesselName (Some imo) = Some name"
    and "flag = shipField L (NewHeaderMapper (rows ! 0)) (rows ! 0) (rows ! 1) [''flag'']"
    and "vtype = shipField L (NewHeaderMapper (rows ! 0)) (rows ! 0) (rows ! 1)
           [''type'', ''vessel_type'', ''ship_type'']"
    and "(case selectVesselByIMO d imo of
            None \<Rightarrow> insertVessel (Some imo) (Some name) flag vtype d
          | Some existingID \<Rightarrow>
              (if existingID = 0
               then insertVessel (Some imo) (Some name) flag vtype
                      (updateVessel existingID (Some name) flag vtype d)
               else Inr (existingID, updateVessel existingID (Some name) flag vtype d)))
         = Inr (ident, d2)"
  shows "processShipInfo L f providedIMO vesselName uploadedAt d =
      Inr (ident,
        fst (processLocationFromShipInfo L (rows ! 0) (rows ! 1) ident uploadedAt
          (NewHeaderMapper (rows ! 0)) (location_readings d2)),
        fst (snd (processLocationFromShipInfo L (rows ! 0) (rows ! 1) ident uploadedAt
          (NewHeaderMapper (rows ! 0)) (location_readings d2))),
        d2\<lparr>location_readings :=
          snd (snd (processLocationFromShipInfo L (rows ! 0) (rows ! 1) ident uploadedAt
            (NewHeaderMapper (rows ! 0)) (location_readings d2)))\<rparr>)"
proof (cases "selectVesselByIMO d imo")
  case None
  then show ?thesis
    using assms by (simp add: processShipInfo_def Let_def case_prod_beta)
next
  case (Some existingID)
  show ?thesis
  proof (cases "existingID = 0")
    case True
    then show ?thesis
      using assms Some by (simp add: processShipInfo_def Let_def case_prod_beta)
  next
    case False
    with assms(8) Some have e: "ident = existingID"
      and d2: "d2 = updateVessel existingID (Some name) flag vtype d"
      by auto
    show ?thesis
      unfolding e d2 using assms(1-7) Some False
      by (simp add: processShipInfo_def Let_def case_prod_beta)
  qed
qed

text \<open>
  Claim C5. When an IMO is provided and the workbook has a ship-info sheet with a header
  row and a data row, the IMO of the ingestion is the provided one whatever the sheet
  holds, \<open>processShipInfo\<close> succeeds (vessel ids are never 0 in the database), and the
  vessel it returns carries the provided IMO.
\<close>

theorem provided_imo_overrides_sheet:
  assumes "providedIMO \<noteq> []"
    and "findShipInfoSheet (GetSheetList f) \<noteq> []"
    and "GetRows f (findShipInfoSheet (GetSheetList f)) = Some rows"
    and "2 \<le> length rows"
    and "\<forall>v \<in> set (vessels d). vessel_id v \<noteq> 0"
  shows "resolveIMO L (NewHeaderMapper (rows ! 0)) (rows ! 0) (rows ! 1) providedIMO = Some providedIMO
       \<and> (\<exists>vesselID locationCount locationWarnings d'.
            processShipInfo L f providedIMO vesselName uploadedAt d =
              Inr (vesselID, locationCount, locationWarnings, d') \<and>
            (\<exists>v \<in> set (vessels d'). vessel_id v = vesselID \<and> vessel_imo v = Some providedIMO))"
proof -
  let ?headers = "rows ! 0" and ?data = "rows ! 1"
  let ?mapper = "NewHeaderMapper ?headers"
  have imo: "resolveIMO L ?mapper ?headers ?data providedIMO = Some providedIMO"
    using assms(1) by (simp add: resolveIMO_def)
  have "resolveName L ?mapper ?headers ?data vesselName (Some providedIMO) \<noteq> None"
    by (simp add: resolveName_def split: option.splits)
  then obtain name where name:
    "resolveName L ?mapper ?headers ?data vesselName (Some providedIMO) = Some name"
    by blast
  let ?flag = "shipField L ?mapper ?headers ?data [''flag'']"
  let ?type = "shipField L ?mapper ?headers ?data [''type'', ''vessel_type'', ''ship_type'']"
  have "\<exists>ident d2. (case selectVesselByIMO d providedIMO of
            None \<Rightarrow> insertVessel (Some providedIMO) (Some name) ?flag ?type d
          | Some existingID \<Rightarrow>
              (if existingID = 0
               then insertVessel (Some providedIMO) (Some name) ?flag ?type
                      (updateVessel existingID (Some name) ?flag ?type d)
               else Inr (existingID, updateVessel existingID (Some name) ?flag ?type d))) = Inr (ident, d2)
          \<and> (\<exists>v \<in> set (vessels d2). vessel_id v = ident \<and> vessel_imo v = Some providedIMO)"
  proof (cases "selectVesselByIMO d providedIMO")
    case None
    then obtain ident d2 where
      "insertVessel (Some providedIMO) (Some name) ?flag ?type d = Inr (ident, d2)"
      using insertVessel_fresh selectVesselByIMO_None by blast
    then show ?thesis
      using None insertVessel_Inr by fastforce
  next
    case (Some existingID)
    then obtain v where v: "v \<in> set (vessels d)" "vessel_id v = existingID"
        "vessel_imo v = Some providedIMO"
      using selectVesselByIMO_Some by blast
    then have "existingID \<noteq> 0"
      using assms(5) by blast
    then show ?thesis
      using Some updateVessel_keeps [OF v] by simp
  qed
  then obtain ident d2 where
    step: "(case selectVesselByIMO d providedIMO of
            None \<Rightarrow> insertVessel (Some providedIMO) (Some name) ?flag ?type d
          | Some existingID \<Rightarrow>
              (if existingID = 0
               then insertVessel (Some providedIMO) (Some name) ?flag ?type
                      (updateVessel existingID (Some name) ?flag ?type d)
               else Inr (existingID, updateVessel existingID (Some name) ?flag ?type d))) = Inr (ident, d2)"
    and v: "\<exists>v \<in> set (vessels d2). vessel_id v = ident \<and> vessel_imo v = Some providedIMO"
    by blast
  show ?thesis
    using imo v processShipInfo_with_sheet [OF assms(2,3,4) imo name refl refl step, of uploadedAt]
    by auto
qed

text \<open>
  The example workbook, whose ship-info sheet holds the IMO 1111111, ingested with the
  provided IMO 2222222.
\<close>

theorem provided_imo_overrides_sheet_example:
  "shipField exampleLib (NewHeaderMapper [''IMO'', ''Name'', ''Flag'']) [''IMO'', ''Name'', ''Flag'']
       [''1111111'', ''Ever Given'', ''PA''] [''imo''] = Some ''1111111''
   \<and> resolveIMO exampleLib (NewHeaderMapper [''IMO'', ''Name'', ''Flag'']) [''IMO'', ''Name'', ''Flag'']
       [''1111111'', ''Ever Given'', ''PA''] ''2222222'' = Some ''2222222''
   \<and> (\<exists>vesselID locationCount locationWarnings d'.
         processShipInfo exampleLib exampleWorkbook ''2222222'' [] exampleTime emptyDB =
           Inr (vesselID, locationCount, locationWarnings, d') \<and>
         (\<exists>v \<in> set (vessels d'). vessel_id v = vesselID \<and> vessel_imo v = Some ''2222222''))"
proof -
  have sheet: "findShipInfoSheet (GetSheetList exampleWorkbook) \<noteq> []"
    by code_simp
  have rows: "GetRows exampleWorkbook (findShipInfoSheet (GetSheetList exampleWorkbook)) =
      Some [[''IMO'', ''Name'', ''Flag''], [''1111111'', ''Ever Given'', ''PA'']]"
    by code_simp
  have own: "shipField exampleLib (NewHeaderMapper [''IMO'', ''Name'', ''Flag''])
      [''IMO'', ''Name'', ''Flag''] [''1111111'', ''Ever Given'', ''PA''] [''imo''] = Some ''1111111''"
    by code_simp
  have "''2222222'' \<noteq> []" and "2 \<le> length [[''IMO'', ''Name'', ''Flag''], [''1111111'', ''Ever Given'', ''PA'']]"
    and "\<forall>v \<in> set (vessels emptyDB). vessel_id v \<noteq> 0"
    by (simp_all add: emptyDB_def)
  from provided_imo_overrides_sheet [OF this(1) sheet rows this(2) this(3),
      of exampleLib "[]" exampleTime] own
  show ?thesis
    by simp
qed

section \<open>Upload records\<close>

lemma insertVessel_uploads:
  "insertVessel imo name flag vtype d = Inr (ident, d') \<Longrightarrow> uploads d' = uploads d"
  by (auto simp: insertVessel_def Let_def split: if_splits)

lemma vesselFromIdentifiers_uploads:
  "vesselFromIdentifiers providedIMO vesselName d = Inr (ident, n, w, d') \<Longrightarrow> uploads d' = uploads d"
  by (auto simp: vesselFromIdentifiers_def Let_def split: if_splits sum.splits
      dest: insertVessel_uploads)

lemma updateVessel_uploads: "uploads (updateVessel ident name flag vtype d) = uploads d"
  by (simp add: updateVessel_def)

lemma processShipInfo_uploads:
  assumes "processShipInfo L f providedIMO vesselName uploadedAt d = Inr (ident, n, w, d')"
  shows "uploads d' = uploads d"
proof (cases "findShipInfoSheet (GetSheetList f) = []")
  case True
  with assms show ?thesis
    by (simp add: processShipInfo_def vesselFromIdentifiers_uploads)
next
  case sheet: False
  show ?thesis
  proof (cases "GetRows f (findShipInfoSheet (GetSheetList f))")
    case None
    with assms sheet show ?thesis
      by (simp add: processShipInfo_def vesselFromIdentifiers_uploads)
  next
    case (Some rows)
    show ?thesis
    proof (cases "length rows < 2")
      case True
      with assms sheet Some show ?thesis
        by (simp add: processShipInfo_def vesselFromIdentifiers_uploads)
    next
      case False
      define mapper where "mapper = NewHeaderMapper (rows ! 0)"
      define imo where "imo = resolveIMO L mapper (rows ! 0) (rows ! 1) providedIMO"
      define name where "name = resolveName L mapper (rows ! 0) (rows ! 1) vesselName imo"
      define flag where "flag = shipField L mapper (rows ! 0) (rows ! 1) [''flag'']"
      define vtype where "vtype = shipField L mapper (rows ! 0) (rows ! 1)
        [''type'', ''vessel_type'', ''ship_type'']"
      define existing where
        "existing = (case imo of None \<Rightarrow> None | Some i \<Rightarrow> selectVesselByIMO d i)"
      define vesselID where
        "vesselID = (case existing of None \<Rightarrow> 0 | Some existingID \<Rightarrow> existingID)"
      define d1 where "d1 = (case existing of None \<Rightarrow> d
        | Some existingID \<Rightarrow> updateVessel existingID name flag vtype d)"
      define step where "step = (if vesselID = 0 then insertVessel imo name flag vtype d1
        else Inr (vesselID, d1))"
      have d1: "uploads d1 = uploads d"
        by (simp add: d1_def updateVessel_uploads split: option.splits)
      have unfold: "processShipInfo L f providedIMO vesselName uploadedAt d =
        (if name = None then Inl ''panic: nil pointer dereference''
         else (case step of
                 Inl err \<Rightarrow> Inl err
               | Inr (ident, d2) \<Rightarrow>
                   (case processLocationFromShipInfo L (rows ! 0) (rows ! 1) ident uploadedAt
                           mapper (location_readings d2) of
                      (locationCount, locationWarnings, table) \<Rightarrow>
                        Inr (ident, locationCount, locationWarnings,
                             d2\<lparr>location_readings := table\<rparr>))))"
        using sheet Some False
        unfolding processShipInfo_def Let_def mapper_def imo_def name_def flag_def vtype_def
          existing_def vesselID_def d1_def step_def
        by simp
      from assms obtain d2 where step: "step = Inr (ident, d2)"
        and d': "d' = d2\<lparr>location_readings :=
          snd (snd (processLocationFromShipInfo L (rows ! 0) (rows ! 1) ident uploadedAt
                           mapper (location_readings d2)))\<rparr>"
        unfolding unfold
        by (cases step) (auto split: if_splits prod.splits)
      have "uploads d2 = uploads d1"
        using step unfolding step_def
        by (auto split: if_splits dest: insertVessel_uploads)
      then show ?thesis
        by (simp add: d' d1)
    qed
  qed
qed

lemma processSheet_uploads:
  "uploads (snd (snd (processSheet L f vesselID uploadedAt sheetName st))) = uploads (snd (snd st))"
  by (cases st) (simp add: processSheet_def case_prod_beta)

lemma fold_processSheet_uploads:
  "uploads (snd (snd (fold (processSheet L f vesselID uploadedAt) sheets st))) = uploads (snd (snd st))"
  by (induction sheets arbitrary: st) (simp_all add: processSheet_uploads)

lemma updateStreamLatest_uploads: "uploads (updateStreamLatest vesselID rowsInserted ts d) = uploads d"
  unfolding updateStreamLatest_def
  by (induction rowsInserted arbitrary: d) (simp_all add: case_prod_beta)

text \<open>
  Claim C1, against which the code fails. A successful \<open>ProcessFile\<close> leaves the
  table of uploads as it was, because nothing inserts into it; so on a database without
  uploads no call ever finds an earlier upload: every successful call, also one with bytes
  that were ingested before, answers \<open>ingested\<close> with upload id 1.
\<close>

theorem ProcessFile_writes_no_upload:
  assumes "ProcessFile L now fileData filename imo vesselName periodStart d = Inr (resp, d')"
  shows "uploads d' = uploads d
       \<and> (uploads d = [] \<longrightarrow> Status resp = ''ingested'' \<and> UploadID resp = Some 1)"
proof (cases "selectUploadByHash d (SHA256Hex L fileData)")
  case (Some existingUploadID)
  then have "uploads d \<noteq> []"
    by (auto simp: selectUploadByHash_def)
  with Some assms show ?thesis
    by (auto simp: ProcessFile_def Let_def)
next
  case None
  define uploadedAt where "uploadedAt = (case periodStart of None \<Rightarrow> now | Some p \<Rightarrow> p)"
  from None assms obtain f where f: "OpenReader L fileData = Some f"
    by (cases "OpenReader L fileData") (simp_all add: ProcessFile_def Let_def)
  from None assms f obtain vesselID locationCount locationWarnings d1 where
    s: "processShipInfo L f imo vesselName uploadedAt d =
         Inr (vesselID, locationCount, locationWarnings, d1)"
    unfolding uploadedAt_def
    by (cases "processShipInfo L f imo vesselName (case periodStart of None \<Rightarrow> now | Some p \<Rightarrow> p) d")
      (auto simp: ProcessFile_def Let_def)
  define st where "st = fold (processSheet L f vesselID uploadedAt) (GetSheetList f)
      (if locationCount > 0 then [(''location'', locationCount)] else [], locationWarnings, d1)"
  have "ProcessFile L now fileData filename imo vesselName periodStart d =
      Inr (\<lparr>Status = ''ingested'', UploadID = Some 1, VesselID = Some vesselID,
             RowsInserted = fst st, Warnings = fst (snd st)\<rparr>,
           updateStreamLatest vesselID (fst st) uploadedAt (snd (snd st)))"
    using None f s unfolding st_def uploadedAt_def
    by (simp add: ProcessFile_def Let_def case_prod_beta)
  with assms have r: "resp = \<lparr>Status = ''ingested'', UploadID = Some 1, VesselID = Some vesselID,
             RowsInserted = fst st, Warnings = fst (snd st)\<rparr>"
    and d': "d' = updateStreamLatest vesselID (fst st) uploadedAt (snd (snd st))"
    by simp_all
  have "uploads d' = uploads d1"
    unfolding d' st_def by (simp add: updateStreamLatest_uploads fold_processSheet_uploads)
  then show ?thesis
    using processShipInfo_uploads [OF s] r by simp
qed

text \<open>
  The example workbook ingested twice into an empty database: both calls answer
  \<open>ingested\<close> with upload id 1, and there is no upload row after either.
\<close>

theorem ProcessFile_twice_example:
  "case ProcessFile exampleLib exampleTime ''workbook'' ''telemetry.xlsx'' ''2222222'' [] None emptyDB of
     Inl err \<Rightarrow> False
   | Inr (resp1, d1) \<Rightarrow>
       Status resp1 = ''ingested'' \<and> UploadID resp1 = Some 1 \<and> uploads d1 = [] \<and>
       (case ProcessFile exampleLib exampleTime ''workbook'' ''telemetry.xlsx'' ''2222222'' [] None d1 of
          Inl err \<Rightarrow> False
        | Inr (resp2, d2) \<Rightarrow>
            Status resp2 = ''ingested'' \<and> UploadID resp2 = Some 1 \<and> uploads d2 = [])"
proof -
  have run: "case ProcessFile exampleLib exampleTime ''workbook'' ''telemetry.xlsx'' ''2222222'' [] None emptyDB of
     Inl err \<Rightarrow> False
   | Inr (resp1, d1) \<Rightarrow>
       (case ProcessFile exampleLib exampleTime ''workbook'' ''telemetry.xlsx'' ''2222222'' [] None d1 of
          Inl err \<Rightarrow> False
        | Inr (resp2, d2) \<Rightarrow> True)"
    by code_simp
  then obtain resp1 d1 where
    one: "ProcessFile exampleLib exampleTime ''workbook'' ''telemetry.xlsx'' ''2222222'' [] None emptyDB
            = Inr (resp1, d1)"
    by (auto split: sum.splits)
  with run obtain resp2 d2 where
    two: "ProcessFile exampleLib exampleTime ''workbook'' ''telemetry.xlsx'' ''2222222'' [] None d1
            = Inr (resp2, d2)"
    by (auto split: sum.splits)
  have e: "uploads emptyDB = []"
    by (simp add: emptyDB_def)
  from ProcessFile_writes_no_upload [OF one] e
  have first: "uploads d1 = [] \<and> Status resp1 = ''ingested'' \<and> UploadID resp1 = Some 1"
    by simp
  with ProcessFile_writes_no_upload [OF two]
  have "uploads d2 = [] \<and> Status resp2 = ''ingested'' \<and> UploadID resp2 = Some 1"
    by simp
  with first show ?thesis
    by (simp add: one two)
qed


section \<open>Decimal digits\<close>

lemma of_char_digitChar: "n < 10 \<Longrightarrow> (of_char (digitChar n) :: nat) = 48 + n"
  by (simp add: digitChar_def)

lemma isDigit_digitChar: "n < 10 \<Longrightarrow> isDigit (digitChar n)"
  by (simp add: isDigit_def of_char_digitChar)

lemma digitVal_digitChar: "n < 10 \<Longrightarrow> digitVal (digitChar n) = n"
  by (simp add: digitVal_def of_char_digitChar)

lemma digitChar_0: "digitChar 0 = CHR ''0''"
  by code_simp

lemma digits_lt10: "n < 10 \<Longrightarrow> digits n = [digitChar n]"
  by (simp add: digits.simps)

lemma digits_ge10: "10 \<le> n \<Longrightarrow> digits n = digits (n div 10) @ [digitChar (n mod 10)]"
  by (subst digits.simps) simp

lemma digits_nonempty: "digits n \<noteq> []"
  by (subst digits.simps) simp

lemma list_all_isDigit_digits: "list_all isDigit (digits n)"
proof (induction n rule: digits.induct)
  case (1 n)
  show ?case
  proof (cases "n < 10")
    case True
    then show ?thesis
      by (simp add: digits_lt10 isDigit_digitChar)
  next
    case False
    with "1" show ?thesis
      by (simp add: digits_ge10 isDigit_digitChar)
  qed
qed

lemma digitsVal_snoc: "digitsVal (xs @ [c]) = digitsVal xs * 10 + digitVal c"
  by (simp add: digitsVal_def)

lemma digitsVal_digits: "digitsVal (digits n) = n"
proof (induction n rule: digits.induct)
  case (1 n)
  show ?case
  proof (cases "n < 10")
    case True
    then show ?thesis
      by (simp add: digits_lt10 digitsVal_def digitVal_digitChar)
  next
    case False
    with "1" show ?thesis
      by (simp add: digits_ge10 digitsVal_snoc digitVal_digitChar)
  qed
qed

lemma isDigit_not_sign: "isDigit c \<Longrightarrow> c \<noteq> CHR ''-'' \<and> c \<noteq> CHR ''+'' \<and> c \<noteq> CHR ''|''"
  by (auto simp: isDigit_def)

lemma hd_digits_isDigit: "isDigit (hd (digits n))"
  using list_all_isDigit_digits [of n] digits_nonempty [of n]
  by (cases "digits n") simp_all

lemma bar_notin_digits: "CHR ''|'' \<notin> set (digits n)"
  using list_all_isDigit_digits [of n] isDigit_not_sign
  by (auto simp: list_all_iff)


lemma replicate_small:
  "replicate 3 c = [c, c, c]" "replicate 2 c = [c, c]" "replicate (Suc 0) c = [c]"
  by (simp_all add: numeral_3_eq_3 numeral_2_eq_2)

lemma digits_two:
  assumes "10 \<le> n" and "n < 100"
  shows "digits n = [digitChar (n div 10), digitChar (n mod 10)]"
proof -
  have "n div 10 < 10"
    using assms by simp
  then show ?thesis
    using assms by (simp add: digits_ge10 digits_lt10)
qed

lemma digits_three:
  assumes "100 \<le> n" and "n < 1000"
  shows "digits n = [digitChar (n div 100), digitChar (n div 10 mod 10), digitChar (n mod 10)]"
proof -
  have a: "10 \<le> n div 10" "n div 10 < 100"
    using assms by simp_all
  have b: "n div 10 div 10 = n div 100"
    by (simp add: div_mult2_eq [symmetric])
  have "digits n = digits (n div 10) @ [digitChar (n mod 10)]"
    using assms by (simp add: digits_ge10)
  then show ?thesis
    by (simp add: digits_two [OF a] b)
qed

lemma digits_four_exact:
  assumes "1000 \<le> n" and "n < 10000"
  shows "digits n = [digitChar (n div 1000), digitChar (n div 100 mod 10),
                     digitChar (n div 10 mod 10), digitChar (n mod 10)]"
proof -
  have a: "100 \<le> n div 10" "n div 10 < 1000"
    using assms by simp_all
  have b: "n div 10 div 100 = n div 1000" "n div 10 div 10 = n div 100"
    by (simp_all add: div_mult2_eq [symmetric])
  have "digits n = digits (n div 10) @ [digitChar (n mod 10)]"
    using assms by (simp add: digits_ge10)
  then show ?thesis
    by (simp add: digits_three [OF a] b)
qed

lemma digits_four:
  assumes "n < 10000"
  shows "replicate (4 - length (digits n)) (CHR ''0'') @ digits n =
         [digitChar (n div 1000), digitChar (n div 100 mod 10), digitChar (n div 10 mod 10),
          digitChar (n mod 10)]"
proof -
  consider "n < 10" | "10 \<le> n" "n < 100" | "100 \<le> n" "n < 1000" | "1000 \<le> n"
    by linarith
  then show ?thesis
  proof cases
    case 1
    then have "n div 1000 = 0" "n div 100 = 0" "n div 10 = 0" "n mod 10 = n"
      by simp_all
    with 1 show ?thesis
      by (simp add: digits_lt10 replicate_small digitChar_0)
  next
    case 2
    then have "n div 1000 = 0" "n div 100 = 0" "n div 10 mod 10 = n div 10"
      by simp_all
    then show ?thesis
      by (simp add: digits_two [OF 2] replicate_small digitChar_0)
  next
    case 3
    then have "n div 1000 = 0" "n div 100 mod 10 = n div 100"
      by simp_all
    then show ?thesis
      by (simp add: digits_three [OF 3] replicate_small digitChar_0)
  next
    case 4
    then show ?thesis
      using assms by (simp add: digits_four_exact)
  qed
qed

lemma appendInt4:
  assumes "0 \<le> x" and "x < 10000"
  shows "appendInt x 4 =
         [digitChar (nat x div 1000), digitChar (nat x div 100 mod 10),
          digitChar (nat x div 10 mod 10), digitChar (nat x mod 10)]"
  using assms digits_four [of "nat x"] by (simp add: appendInt_def)


lemma atoi_four:
  assumes "a < 10" "b < 10" "c < 10" "d < 10"
  shows "atoi [digitChar a, digitChar b, digitChar c, digitChar d] =
         Some (int (a * 1000 + b * 100 + c * 10 + d))"
proof -
  have ns: "digitChar a \<noteq> CHR ''-''" "digitChar a \<noteq> CHR ''+''"
    using isDigit_not_sign [OF isDigit_digitChar [OF assms(1)]] by simp_all
  have v: "digitsVal [digitChar a, digitChar b, digitChar c, digitChar d] =
      a * 1000 + b * 100 + c * 10 + d"
    using assms by (simp add: digitsVal_def digitVal_digitChar)
  have "a * 1000 + b * 100 + c * 10 + d \<le> 9223372036854775808"
    using assms by linarith
  then show ?thesis
    using assms ns by (simp add: atoi_def Let_def isDigit_digitChar v)
qed


section \<open>Parsing timestamps\<close>


























end
